theory Spec2Isabelle
  imports Main "HOL-Library.Sublist"
begin

section \<open>The JavaScript values the connector handles\<close>

text \<open>
  The connector exists in three variants: the first document of \<^verbatim>\<open>src/api/index.js\<close>
  (lines 1 to 164, suffix \<open>_A\<close> below), the second document of the same file (lines 165
  to 316, suffix \<open>_B\<close>) and \<^verbatim>\<open>src/unnamed/part_000\<close> (suffix \<open>_C\<close>). All three receive
  a parsed JSON body, call the booking provider with \<^verbatim>\<open>fetch\<close> and answer with
  \<^verbatim>\<open>res.status(..).json(..)\<close>.

  A JavaScript value that comes out of \<^verbatim>\<open>JSON.parse\<close> is a \<open>json\<close>; \<open>JUndef\<close> is
  \<^verbatim>\<open>undefined\<close>, the value of a missing property. A number \<open>JNum n\<close> stands for an
  integer that JavaScript holds exactly and prints in decimal digits, that is, of magnitude
  below \<open>2 ^ 53\<close>; fractions and larger numbers are outside the model (identifiers, names,
  phone numbers and times are strings in both the inbound payload and the provider's
  bodies). An object is the list of its properties.
\<close>

datatype json =
    JUndef
  | JNull
  | JBool bool
  | JNum int
  | JStr string
  | JArr "json list"
  | JObj "(string \<times> json) list"

text \<open>An exception carries its constructor and its \<^verbatim>\<open>message\<close>.\<close>

datatype js_error = Error string | TypeError string | SyntaxError string

fun message :: "js_error \<Rightarrow> string" where
  "message (Error m) = m"
| "message (TypeError m) = m"
| "message (SyntaxError m) = m"

text \<open>\<^verbatim>\<open>!!v\<close>: the values \<^verbatim>\<open>undefined\<close>, \<^verbatim>\<open>null\<close>, \<^verbatim>\<open>false\<close>, \<^verbatim>\<open>0\<close> and \<^verbatim>\<open>""\<close> are falsy.\<close>

fun truthy :: "json \<Rightarrow> bool" where
  "truthy JUndef = False"
| "truthy JNull = False"
| "truthy (JBool b) = b"
| "truthy (JNum n) = (n \<noteq> 0)"
| "truthy (JStr s) = (s \<noteq> [])"
| "truthy (JArr xs) = True"
| "truthy (JObj kvs) = True"

text \<open>Decimal rendering of a natural number and of an integer, as a template literal does.\<close>

definition digit_char :: "nat \<Rightarrow> char" where
  "digit_char d = ''0123456789'' ! d"

function show_nat :: "nat \<Rightarrow> string" where
  "show_nat n = (if n < 10 then [digit_char n] else show_nat (n div 10) @ [digit_char (n mod 10)])"
  by pat_completeness auto
termination
  by (relation "measure id") auto

declare show_nat.simps [simp del]

definition show_int :: "int \<Rightarrow> string" where
  "show_int i = (if i < 0 then CHR ''-'' # show_nat (nat (- i)) else show_nat (nat i))"

text \<open>
  \<^verbatim>\<open>String(v)\<close>, which a template literal and \<^verbatim>\<open>new Error(v)\<close> apply: a number in the
  range of the model prints its decimal digits (from \<open>10 ^ 21\<close> on JavaScript prints an
  exponent, which the model does not; the numbers printed in the properties below are HTTP
  statuses and clock readings); an array joins its elements with commas (\<^verbatim>\<open>undefined\<close> and
  \<^verbatim>\<open>null\<close> elements as the empty string), an object is \<^verbatim>\<open>[object Object]\<close>.
\<close>

fun ToString :: "json \<Rightarrow> string" and join_comma :: "json list \<Rightarrow> string" where
  "ToString JUndef = ''undefined''"
| "ToString JNull = ''null''"
| "ToString (JBool b) = (if b then ''true'' else ''false'')"
| "ToString (JNum n) = show_int n"
| "ToString (JStr s) = s"
| "ToString (JArr xs) = join_comma xs"
| "ToString (JObj kvs) = ''[object Object]''"
| "join_comma [] = []"
| "join_comma [x] = (if x = JUndef \<or> x = JNull then [] else ToString x)"
| "join_comma (x # y # ys) =
     (if x = JUndef \<or> x = JNull then [] else ToString x) @ '','' @ join_comma (y # ys)"

text \<open>
  Reading property \<open>k\<close> of a value that is neither \<^verbatim>\<open>undefined\<close> nor \<^verbatim>\<open>null\<close>, for the
  property names the connector reads (data properties, \<^verbatim>\<open>length\<close> and the index \<^verbatim>\<open>0\<close>):
  a missing property is \<^verbatim>\<open>undefined\<close>; an array and a string have a \<^verbatim>\<open>length\<close> and
  their indices.
\<close>

definition index_of :: "string \<Rightarrow> nat \<Rightarrow> nat option" where
  "index_of k n = find (\<lambda>i. show_nat i = k) [0..<n]"

fun read_prop :: "json \<Rightarrow> string \<Rightarrow> json" where
  "read_prop (JObj kvs) k = (case map_of kvs k of Some v \<Rightarrow> v | None \<Rightarrow> JUndef)"
| "read_prop (JArr xs) k =
     (if k = ''length'' then JNum (int (length xs))
      else case index_of k (length xs) of Some i \<Rightarrow> xs ! i | None \<Rightarrow> JUndef)"
| "read_prop (JStr s) k =
     (if k = ''length'' then JNum (int (length s))
      else case index_of k (length s) of Some i \<Rightarrow> JStr [s ! i] | None \<Rightarrow> JUndef)"
| "read_prop v k = JUndef"

text \<open>
  The member access \<^verbatim>\<open>v.k\<close> or \<^verbatim>\<open>v[k]\<close>: on \<^verbatim>\<open>undefined\<close> and \<^verbatim>\<open>null\<close> it throws a
  TypeError (with the text Node.js gives it).
\<close>

definition cannot_read :: "json \<Rightarrow> string \<Rightarrow> string" where
  "cannot_read v k = ''Cannot read properties of '' @ ToString v @ '' (reading '' @ [CHR 0x27] @ k @ [CHR 0x27] @ '')''"

definition get :: "json \<Rightarrow> string \<Rightarrow> js_error + json" where
  "get v k = (if v = JUndef \<or> v = JNull then Inl (TypeError (cannot_read v k)) else Inr (read_prop v k))"

text \<open>\<^verbatim>\<open>new Error(v)\<close>: the message is \<^verbatim>\<open>String(v)\<close>, and empty when \<open>v\<close> is \<^verbatim>\<open>undefined\<close>.\<close>

definition new_Error :: "json \<Rightarrow> js_error" where
  "new_Error v = Error (if v = JUndef then [] else ToString v)"

text \<open>
  What \<^verbatim>\<open>JSON.stringify\<close> puts on the wire, read back: a property whose value is
  \<^verbatim>\<open>undefined\<close> is left out, an \<^verbatim>\<open>undefined\<close> array element becomes \<^verbatim>\<open>null\<close>.
\<close>

fun wire :: "json \<Rightarrow> json" where
  "wire (JArr xs) = JArr (map (\<lambda>x. if x = JUndef then JNull else wire x) xs)"
| "wire (JObj kvs) = JObj (map (\<lambda>(k, v). (k, wire v)) (filter (\<lambda>(k, v). v \<noteq> JUndef) kvs))"
| "wire v = v"

text \<open>\<^verbatim>\<open>s.split(' ')\<close> and \<^verbatim>\<open>parts.join(' ')\<close>, for any separator character.\<close>

fun js_split :: "char \<Rightarrow> string \<Rightarrow> string list" where
  "js_split sep [] = [[]]"
| "js_split sep (c # cs) =
     (if c = sep then [] # js_split sep cs
      else case js_split sep cs of [] \<Rightarrow> [[c]] | p # ps \<Rightarrow> (c # p) # ps)"

fun js_join :: "char \<Rightarrow> string list \<Rightarrow> string" where
  "js_join sep [] = []"
| "js_join sep [p] = p"
| "js_join sep (p # q # ps) = p @ sep # js_join sep (q # ps)"

text \<open>
  \<^verbatim>\<open>s.replace(/[\r\n]+/g, ' ')\<close>: every maximal run of carriage returns and line feeds
  becomes one space.
\<close>

definition is_line_break :: "char \<Rightarrow> bool" where
  "is_line_break c = (c = CHR 0x0D \<or> c = CHR 0x0A)"

function replace_line_breaks :: "string \<Rightarrow> string" where
  "replace_line_breaks [] = []"
| "replace_line_breaks (c # cs) =
     (if is_line_break c then CHR '' '' # replace_line_breaks (dropWhile is_line_break cs)
      else c # replace_line_breaks cs)"
  by pat_completeness auto
termination
  by (relation "measure length") (auto simp: length_dropWhile_le less_Suc_eq_le)

text \<open>\<^verbatim>\<open>s.replace(/[^0-9+]/g, '')\<close>: only digits and plus signs stay.\<close>

definition is_phone_char :: "char \<Rightarrow> bool" where
  "is_phone_char c = (c \<in> set ''0123456789+'')"

definition strip_phone :: "string \<Rightarrow> string" where
  "strip_phone s = filter is_phone_char s"

section \<open>The host: provider, clock and random numbers\<close>

text \<open>
  An outgoing \<^verbatim>\<open>fetch\<close> is the request it sends; every call of the connector is a POST.
  The provider either makes \<^verbatim>\<open>fetch\<close> reject, or answers with a status and a body on
  which \<^verbatim>\<open>response.json()\<close> yields a value or rejects.
\<close>

record http_request =
  url :: string
  headers :: "(string \<times> string) list"
  body :: json

record http_response =
  status :: nat
  json_body :: "js_error + json"

datatype fetch_result = Rejected js_error | Responded http_response

definition ok :: "http_response \<Rightarrow> bool" where
  "ok r = (200 \<le> status r \<and> status r \<le> 299)"

text \<open>
  What the host supplies: the provider's answer to each request, the successive readings of
  \<^verbatim>\<open>Date.now()\<close>, the successive values of \<^verbatim>\<open>Math.random().toString(36)\<close> (a string such
  as \<^verbatim>\<open>0.4fzyo82mvyr\<close>), and whether \<^verbatim>\<open>Number(s) > 0\<close> holds of a string.
\<close>

record runtime =
  provider :: "http_request \<Rightarrow> fetch_result"
  date_now :: "nat \<Rightarrow> nat"
  random36 :: "nat \<Rightarrow> string"
  string_gt_zero :: "string \<Rightarrow> bool"

text \<open>
  What a request changes: the requests sent to the provider so far, in order, and the
  number of idempotency keys generated so far (each reads the clock and the random number
  generator once).
\<close>

record state =
  sent :: "http_request list"
  reads :: nat

type_synonym 'a io = "state \<Rightarrow> (js_error + 'a) \<times> state"

definition io_return :: "'a \<Rightarrow> 'a io" where
  "io_return x s = (Inr x, s)"

definition io_throw :: "js_error \<Rightarrow> 'a io" where
  "io_throw e s = (Inl e, s)"

definition io_of :: "js_error + 'a \<Rightarrow> 'a io" where
  "io_of r s = (r, s)"

definition io_bind :: "'a io \<Rightarrow> ('a \<Rightarrow> 'b io) \<Rightarrow> 'b io" where
  "io_bind m f s = (case m s of (Inl e, s') \<Rightarrow> (Inl e, s') | (Inr x, s') \<Rightarrow> f x s')"

definition fetch :: "runtime \<Rightarrow> http_request \<Rightarrow> http_response io" where
  "fetch rt rq s =
     ((case provider rt rq of Rejected e \<Rightarrow> Inl e | Responded r \<Rightarrow> Inr r),
      s\<lparr>sent := sent s @ [rq]\<rparr>)"

definition response_json :: "http_response \<Rightarrow> json io" where
  "response_json r = io_of (json_body r)"

text \<open>\<^verbatim>\<open>v > 0\<close> on a JavaScript value.\<close>

fun gt_zero :: "runtime \<Rightarrow> json \<Rightarrow> bool" where
  "gt_zero rt JUndef = False"
| "gt_zero rt JNull = False"
| "gt_zero rt (JBool b) = b"
| "gt_zero rt (JNum n) = (0 < n)"
| "gt_zero rt (JStr s) = string_gt_zero rt s"
| "gt_zero rt v = string_gt_zero rt (ToString v)"

text \<open>
  The idempotency keys, \<^verbatim>\<open>`vapi-customer-${Date.now()}-${Math.random().toString(36).substring(2, 8)}`\<close>
  and the same with \<^verbatim>\<open>vapi-booking-\<close>.
\<close>

datatype key_kind = CustomerKey | BookingKey

fun key_prefix :: "key_kind \<Rightarrow> string" where
  "key_prefix CustomerKey = ''vapi-customer-''"
| "key_prefix BookingKey = ''vapi-booking-''"

definition substring_2_8 :: "string \<Rightarrow> string" where
  "substring_2_8 s = take 6 (drop 2 s)"

definition idempotency_key :: "key_kind \<Rightarrow> nat \<Rightarrow> string \<Rightarrow> string" where
  "idempotency_key kind now r = key_prefix kind @ show_nat now @ ''-'' @ substring_2_8 r"

definition new_key :: "runtime \<Rightarrow> key_kind \<Rightarrow> string io" where
  "new_key rt kind s =
     (Inr (idempotency_key kind (date_now rt (reads s)) (random36 rt (reads s))),
      s\<lparr>reads := reads s + 1\<rparr>)"

section \<open>Configuration\<close>

text \<open>
  \<^verbatim>\<open>process.env.X\<close> is a string, or \<^verbatim>\<open>undefined\<close> when the variable is not set. Variants
  A (lines 11 to 14) and B (lines 175 to 178) read all four values from the environment.
  Variant C (lines 5 to 8) has a token literal in the code (abbreviated here: nothing
  depends on it but its not being empty) and a fallback for each of the other three.
\<close>

record environment =
  SQUARE_TOKEN :: "string option"
  SQUARE_LOCATION_ID :: "string option"
  SQUARE_SERVICE_ID :: "string option"
  SQUARE_TEAM_ID :: "string option"

record config =
  TOKEN :: json
  LOCATION_ID :: json
  SERVICE_ID :: json
  TEAM_ID :: json

definition env_value :: "string option \<Rightarrow> json" where
  "env_value v = (case v of None \<Rightarrow> JUndef | Some s \<Rightarrow> JStr s)"

definition or_else :: "json \<Rightarrow> json \<Rightarrow> json" where
  "or_else v d = (if truthy v then v else d)"

definition config_AB :: "environment \<Rightarrow> config" where
  "config_AB env =
     \<lparr>TOKEN = env_value (SQUARE_TOKEN env),
      LOCATION_ID = env_value (SQUARE_LOCATION_ID env),
      SERVICE_ID = env_value (SQUARE_SERVICE_ID env),
      TEAM_ID = env_value (SQUARE_TEAM_ID env)\<rparr>"

definition token_literal_C :: string where
  "token_literal_C = ''EAAA-literal-of-line-5''"

definition config_C :: "environment \<Rightarrow> config" where
  "config_C env =
     \<lparr>TOKEN = JStr token_literal_C,
      LOCATION_ID = or_else (env_value (SQUARE_LOCATION_ID env)) (JStr ''INVALID_LOCATION''),
      SERVICE_ID = or_else (env_value (SQUARE_SERVICE_ID env)) (JStr ''INVALID_SERVICE''),
      TEAM_ID = or_else (env_value (SQUARE_TEAM_ID env)) (JStr ''INVALID_TEAM'')\<rparr>"

section \<open>The three upstream calls\<close>

definition searchUrl :: string where
  "searchUrl = ''https://connect.squareup.com/v2/customers/search''"

definition createUrl :: string where
  "createUrl = ''https://connect.squareup.com/v2/customers''"

definition bookingUrl :: string where
  "bookingUrl = ''https://connect.squareup.com/v2/bookings''"

definition square_headers :: "json \<Rightarrow> (string \<times> string) list" where
  "square_headers token =
     [(''Authorization'', ''Bearer '' @ ToString token),
      (''Square-Version'', ''2024-06-25''),
      (''Content-Type'', ''application/json'')]"

text \<open>
  \<^verbatim>\<open>throw new Error(data.errors ? data.errors[0].detail : fallback)\<close>: the provider's first
  error detail when \<^verbatim>\<open>data.errors\<close> is truthy, else the fallback; reading
  \<^verbatim>\<open>data.errors\<close> of \<^verbatim>\<open>null\<close>, or \<^verbatim>\<open>detail\<close> of a missing first error, throws a
  TypeError instead.
\<close>

definition errors_detail_or :: "json \<Rightarrow> string \<Rightarrow> js_error + json" where
  "errors_detail_or data fallback =
     (case get data ''errors'' of
        Inl e \<Rightarrow> Inl e
      | Inr errors \<Rightarrow>
          if truthy errors
          then (case get errors ''0'' of Inl e \<Rightarrow> Inl e | Inr first \<Rightarrow> get first ''detail'')
          else Inr (JStr fallback))"

definition throw_detail_or :: "json \<Rightarrow> string \<Rightarrow> 'a io" where
  "throw_detail_or data fallback =
     (case errors_detail_or data fallback of
        Inl e \<Rightarrow> io_throw e
      | Inr detail \<Rightarrow> io_throw (new_Error detail))"

text \<open>
  \<^verbatim>\<open>(data.customers && data.customers.length > 0) ? data.customers[0].id : null\<close>, the
  last line of every \<^verbatim>\<open>searchCustomer\<close>.
\<close>

definition first_customer_id :: "runtime \<Rightarrow> json \<Rightarrow> js_error + json" where
  "first_customer_id rt data =
     (case get data ''customers'' of
        Inl e \<Rightarrow> Inl e
      | Inr customers \<Rightarrow>
          if truthy customers \<and> gt_zero rt (read_prop customers ''length'')
          then (case get customers ''0'' of Inl e \<Rightarrow> Inl e | Inr first \<Rightarrow> get first ''id'')
          else Inr JNull)"

definition search_body :: "json \<Rightarrow> json" where
  "search_body phone =
     JObj [(''query'', JObj [(''filter'', JObj [(''phone_number'', JObj [(''exact'', phone)])])])]"

definition search_request :: "json \<Rightarrow> json \<Rightarrow> http_request" where
  "search_request phone token =
     \<lparr>url = searchUrl, headers = square_headers token, body = wire (search_body phone)\<rparr>"

text \<open>Variant A, lines 87 to 100.\<close>

definition searchCustomer_A :: "runtime \<Rightarrow> json \<Rightarrow> json \<Rightarrow> json io" where
  "searchCustomer_A rt phone token =
     io_bind (fetch rt (search_request phone token)) (\<lambda>response.
     io_bind (response_json response) (\<lambda>data.
       if \<not> ok response
       then throw_detail_or data
              (''Search Customer HTTP Error '' @ show_nat (status response) @ '' from Square.'')
       else io_of (first_customer_id rt data)))"

text \<open>Variant B, lines 247 to 256: the status of the response is not looked at.\<close>

definition searchCustomer_B :: "runtime \<Rightarrow> json \<Rightarrow> json \<Rightarrow> json io" where
  "searchCustomer_B rt phone token =
     io_bind (fetch rt (search_request phone token)) (\<lambda>response.
     io_bind (response_json response) (\<lambda>data.
       io_of (first_customer_id rt data)))"

text \<open>
  Variant C, lines 76 to 96: the request body holds \<^verbatim>\<open>phone.replace(/[^0-9+]/g, '')\<close>,
  evaluated before \<^verbatim>\<open>fetch\<close> is called; on a \<open>phone\<close> that is not a string it throws.
\<close>

definition phone_replace :: "json \<Rightarrow> js_error + json" where
  "phone_replace phone =
     (case phone of
        JStr s \<Rightarrow> Inr (JStr (strip_phone s))
      | JUndef \<Rightarrow> Inl (TypeError (cannot_read phone ''replace''))
      | JNull \<Rightarrow> Inl (TypeError (cannot_read phone ''replace''))
      | _ \<Rightarrow> Inl (TypeError ''phone.replace is not a function''))"

definition searchCustomer_C :: "runtime \<Rightarrow> json \<Rightarrow> json \<Rightarrow> json io" where
  "searchCustomer_C rt phone token =
     io_bind (io_of (phone_replace phone)) (\<lambda>cleaned.
     io_bind (fetch rt (search_request cleaned token)) (\<lambda>response.
     io_bind (response_json response) (\<lambda>data.
       if \<not> ok response
       then throw_detail_or data
              (''Search Customer HTTP Error '' @ show_nat (status response) @ '' from Square.'')
       else io_of (first_customer_id rt data))))"

text \<open>
  \<^verbatim>\<open>createCustomer\<close>, lines 105 to 107 of variant A (261 to 263 of B, 100 to 102 of C):
  \<^verbatim>\<open>fullName.split(' ')\<close> throws on a value that is not a string.
\<close>

definition split_fullName :: "json \<Rightarrow> js_error + string list" where
  "split_fullName fullName =
     (case fullName of
        JStr s \<Rightarrow> Inr (js_split CHR '' '' s)
      | JUndef \<Rightarrow> Inl (TypeError (cannot_read fullName ''split''))
      | JNull \<Rightarrow> Inl (TypeError (cannot_read fullName ''split''))
      | _ \<Rightarrow> Inl (TypeError ''fullName.split is not a function''))"

definition given_name :: "string list \<Rightarrow> json" where
  "given_name parts = (case parts of [] \<Rightarrow> JUndef | p # ps \<Rightarrow> JStr p)"

definition family_name :: "string list \<Rightarrow> json" where
  "family_name parts =
     (if length parts > 1 then JStr (js_join CHR '' '' (drop 1 parts)) else JStr ''Client'')"

definition customer_body :: "string \<Rightarrow> string list \<Rightarrow> json \<Rightarrow> json" where
  "customer_body key parts phone =
     JObj [(''idempotency_key'', JStr key),
           (''given_name'', given_name parts),
           (''family_name'', family_name parts),
           (''phone_number'', phone)]"

definition customer_request :: "string \<Rightarrow> string list \<Rightarrow> json \<Rightarrow> json \<Rightarrow> http_request" where
  "customer_request key parts phone token =
     \<lparr>url = createUrl, headers = square_headers token,
      body = wire (customer_body key parts phone)\<rparr>"

definition customer_id_or_null :: "json \<Rightarrow> js_error + json" where
  "customer_id_or_null data =
     (case get data ''customer'' of
        Inl e \<Rightarrow> Inl e
      | Inr customer \<Rightarrow> if truthy customer then get customer ''id'' else Inr JNull)"

text \<open>Variants A (lines 103 to 123) and C (lines 98 to 117), which are the same.\<close>

definition createCustomer :: "runtime \<Rightarrow> json \<Rightarrow> json \<Rightarrow> json \<Rightarrow> json io" where
  "createCustomer rt fullName phone token =
     io_bind (io_of (split_fullName fullName)) (\<lambda>parts.
     io_bind (new_key rt CustomerKey) (\<lambda>key.
     io_bind (fetch rt (customer_request key parts phone token)) (\<lambda>response.
     io_bind (response_json response) (\<lambda>data.
       if \<not> ok response
       then throw_detail_or data
              (''Create Customer HTTP Error '' @ show_nat (status response) @ '' from Square.'')
       else io_of (customer_id_or_null data)))))"

text \<open>Variant B, lines 259 to 275: the status of the response is not looked at.\<close>

definition createCustomer_B :: "runtime \<Rightarrow> json \<Rightarrow> json \<Rightarrow> json \<Rightarrow> json io" where
  "createCustomer_B rt fullName phone token =
     io_bind (io_of (split_fullName fullName)) (\<lambda>parts.
     io_bind (new_key rt CustomerKey) (\<lambda>key.
     io_bind (fetch rt (customer_request key parts phone token)) (\<lambda>response.
     io_bind (response_json response) (\<lambda>data.
       io_of (customer_id_or_null data)))))"

text \<open>
  \<^verbatim>\<open>createSquareBooking\<close>: variants A (lines 126 to 160) and C (lines 119 to 149) are the
  same; variant B (lines 278 to 312) differs in the text of the status message, which is
  the parameter \<open>http_error\<close> here.
\<close>

definition booking_body :: "config \<Rightarrow> string \<Rightarrow> json \<Rightarrow> json \<Rightarrow> json" where
  "booking_body cfg key customerId startTime =
     JObj [(''booking'',
             JObj [(''start_at'', startTime),
                   (''location_id'', LOCATION_ID cfg),
                   (''customer_id'', customerId),
                   (''appointment_segments'',
                     JArr [JObj [(''service_variation_id'', SERVICE_ID cfg),
                                 (''team_member_id'', TEAM_ID cfg)]])]),
           (''idempotency_key'', JStr key)]"

definition booking_request :: "config \<Rightarrow> string \<Rightarrow> json \<Rightarrow> json \<Rightarrow> json \<Rightarrow> http_request" where
  "booking_request cfg key customerId startTime token =
     \<lparr>url = bookingUrl, headers = square_headers token,
      body = wire (booking_body cfg key customerId startTime)\<rparr>"

definition no_booking_object :: string where
  "no_booking_object =
     ''Square accepted request but returned no booking object (e.g., time slot unavailable).''"

definition booking_call :: "string \<Rightarrow> config \<Rightarrow> runtime \<Rightarrow> json \<Rightarrow> json \<Rightarrow> json \<Rightarrow> json io" where
  "booking_call http_error cfg rt customerId startTime token =
     io_bind (new_key rt BookingKey) (\<lambda>key.
     io_bind (fetch rt (booking_request cfg key customerId startTime token)) (\<lambda>response.
     io_bind (response_json response) (\<lambda>data.
       if \<not> ok response
       then throw_detail_or data (http_error @ show_nat (status response) @ '' from Square.'')
       else io_bind (io_of (get data ''booking'')) (\<lambda>booking.
         if \<not> truthy booking
         then throw_detail_or data no_booking_object
         else io_of (get booking ''id'')))))"

definition createSquareBooking :: "config \<Rightarrow> runtime \<Rightarrow> json \<Rightarrow> json \<Rightarrow> json \<Rightarrow> json io" where
  "createSquareBooking = booking_call ''Booking HTTP Error ''"

definition createSquareBooking_B :: "config \<Rightarrow> runtime \<Rightarrow> json \<Rightarrow> json \<Rightarrow> json \<Rightarrow> json io" where
  "createSquareBooking_B = booking_call ''HTTP Error ''"

section \<open>The webhook handler\<close>

text \<open>
  What the handler answers: \<^verbatim>\<open>res.status(code).json(v)\<close> sends \<open>v\<close> as JSON,
  \<^verbatim>\<open>res.status(code).send(text)\<close> sends a text.
\<close>

datatype content = Json json | Text string

record reply =
  code :: nat
  content :: content

definition res_status_json :: "nat \<Rightarrow> json \<Rightarrow> reply" where
  "res_status_json c v = \<lparr>code = c, content = Json (wire v)\<rparr>"

definition res_status_send :: "nat \<Rightarrow> string \<Rightarrow> reply" where
  "res_status_send c t = \<lparr>code = c, content = Text t\<rparr>"

text \<open>\<^verbatim>\<open>{ results: [{ toolCallId: .., result: .. }] }\<close>.\<close>

definition results :: "json \<Rightarrow> string \<Rightarrow> json" where
  "results tool_call_id result =
     JObj [(''results'', JArr [JObj [(''toolCallId'', tool_call_id), (''result'', JStr result)]])]"

text \<open>
  The two destructurings at the head of the handler (lines 33 to 36 of variant A, 193 to
  197 of B, 23 to 27 of C): \<^verbatim>\<open>req.body || {}\<close>, then \<^verbatim>\<open>args || {}\<close>.
\<close>

record tool_call =
  functionName :: json
  toolCallId :: json
  customer_name :: json
  customer_phone :: json
  start_time :: json
  service_name :: json

definition destructure :: "json \<Rightarrow> tool_call" where
  "destructure req_body =
     (let vapiPayload = or_else req_body (JObj []);
          args = or_else (read_prop vapiPayload ''args'') (JObj [])
      in \<lparr>functionName = read_prop vapiPayload ''functionName'',
          toolCallId = read_prop vapiPayload ''toolCallId'',
          customer_name = read_prop args ''customer_name'',
          customer_phone = read_prop args ''customer_phone'',
          start_time = read_prop args ''start_time'',
          service_name = read_prop args ''service_name''\<rparr>)"

text \<open>The input validation (line 39 of variant A, 200 of B, 30 of C) and its answer.\<close>

definition rejects :: "config \<Rightarrow> tool_call \<Rightarrow> bool" where
  "rejects cfg c =
     (functionName c \<noteq> JStr ''schedule_square_appointment'' \<or> \<not> truthy (customer_name c)
      \<or> \<not> truthy (service_name c) \<or> \<not> truthy (TOKEN cfg))"

definition configuration_error :: string where
  "configuration_error =
     ''Configuration Error: Missing required booking data (name or service) or invalid function name.''"

definition rejection :: "tool_call \<Rightarrow> reply" where
  "rejection c =
     res_status_json 200 (results (or_else (toolCallId c) (JStr ''test-error'')) configuration_error)"

text \<open>
  The customer logic at the head of the \<^verbatim>\<open>try\<close> block (lines 50 to 56 of variant A, 212
  to 218 of B, 41 to 47 of C), over the variant's \<^verbatim>\<open>searchCustomer\<close> and
  \<^verbatim>\<open>createCustomer\<close>.
\<close>

definition failed_to_secure :: string where
  "failed_to_secure = ''Failed to secure customer ID for booking.''"

definition resolve_customer ::
  "(json \<Rightarrow> json \<Rightarrow> json io) \<Rightarrow> (json \<Rightarrow> json \<Rightarrow> json \<Rightarrow> json io) \<Rightarrow> config \<Rightarrow> tool_call \<Rightarrow> json io" where
  "resolve_customer search create cfg c =
     io_bind (search (customer_phone c) (TOKEN cfg)) (\<lambda>found.
     io_bind (if \<not> truthy found
              then create (customer_name c) (customer_phone c) (TOKEN cfg)
              else io_return found) (\<lambda>customer_id.
     if \<not> truthy customer_id then io_throw (Error failed_to_secure)
     else io_return customer_id))"

text \<open>The success answers: lines 62 to 68 of variant A and 53 to 58 of C; lines 224 to 230 of B.\<close>

definition success_AC :: "tool_call \<Rightarrow> json \<Rightarrow> reply" where
  "success_AC c bookingId =
     res_status_json 200
       (results (toolCallId c) (''Booking success. ID: '' @ ToString bookingId @ ''.''))"

definition success_B :: "tool_call \<Rightarrow> json \<Rightarrow> reply" where
  "success_B c bookingId =
     res_status_json 200
       (results (toolCallId c)
          (''Great! I'' @ [CHR 0x27] @ ''ve confirmed your appointment. Your booking ID is ''
           @ ToString bookingId @ ''. The service is '' @ ToString (service_name c)
           @ '' at '' @ ToString (start_time c) @ ''.''))"

text \<open>The \<^verbatim>\<open>catch\<close> blocks: lines 70 to 82 of variant A and 60 to 71 of C; lines 232 to 242 of B.\<close>

definition catch_AC :: "tool_call \<Rightarrow> js_error \<Rightarrow> reply" where
  "catch_AC c error =
     res_status_json 200
       (results (toolCallId c)
          (''Booking failed. Failure Detail: ''
           @ (if message error \<noteq> [] then replace_line_breaks (message error)
              else ''Unknown API Error.'')))"

definition catch_B :: "tool_call \<Rightarrow> js_error \<Rightarrow> reply" where
  "catch_B c error =
     res_status_json 200
       (results (toolCallId c)
          (''I encountered a system error and could not finalize the booking. Failure Detail: ''
           @ message error))"

text \<open>
  The \<^verbatim>\<open>try\<close> blocks (lines 48 to 69 of variant A, 210 to 231 of B, 39 to 59 of C) are the
  same up to the helpers they call and the success answer.
\<close>

definition try_block ::
  "(json \<Rightarrow> json \<Rightarrow> json io) \<Rightarrow> (json \<Rightarrow> json \<Rightarrow> json \<Rightarrow> json io) \<Rightarrow> (json \<Rightarrow> json \<Rightarrow> json \<Rightarrow> json io)
     \<Rightarrow> (tool_call \<Rightarrow> json \<Rightarrow> reply) \<Rightarrow> config \<Rightarrow> tool_call \<Rightarrow> reply io" where
  "try_block search create book success cfg c =
     io_bind (resolve_customer search create cfg c) (\<lambda>customer_id.
     io_bind (book customer_id (start_time c) (TOKEN cfg)) (\<lambda>bookingId.
     io_return (success c bookingId)))"

definition try_A :: "config \<Rightarrow> runtime \<Rightarrow> tool_call \<Rightarrow> reply io" where
  "try_A cfg rt c =
     try_block (searchCustomer_A rt) (createCustomer rt) (createSquareBooking cfg rt) success_AC cfg c"

definition try_B :: "config \<Rightarrow> runtime \<Rightarrow> tool_call \<Rightarrow> reply io" where
  "try_B cfg rt c =
     try_block (searchCustomer_B rt) (createCustomer_B rt) (createSquareBooking_B cfg rt) success_B cfg c"

definition try_C :: "config \<Rightarrow> runtime \<Rightarrow> tool_call \<Rightarrow> reply io" where
  "try_C cfg rt c =
     try_block (searchCustomer_C rt) (createCustomer rt) (createSquareBooking cfg rt) success_AC cfg c"

definition try_catch :: "reply io \<Rightarrow> (js_error \<Rightarrow> reply) \<Rightarrow> state \<Rightarrow> reply \<times> state" where
  "try_catch block handler s =
     (case block s of (Inr r, s') \<Rightarrow> (r, s') | (Inl error, s') \<Rightarrow> (handler error, s'))"

text \<open>
  The handlers. Variants A (lines 25 to 83) and B (lines 188 to 243) are the callbacks of an
  Express \<^verbatim>\<open>app.post\<close> route and see the body of a POST request; variant C (lines 12 to
  72) is the whole serverless function and looks at the method first. Logging is left out.
\<close>

definition handler_A :: "environment \<Rightarrow> runtime \<Rightarrow> json \<Rightarrow> state \<Rightarrow> reply \<times> state" where
  "handler_A env rt req_body s =
     (let cfg = config_AB env; c = destructure req_body
      in if rejects cfg c then (rejection c, s)
         else try_catch (try_A cfg rt c) (catch_AC c) s)"

definition handler_B :: "environment \<Rightarrow> runtime \<Rightarrow> json \<Rightarrow> state \<Rightarrow> reply \<times> state" where
  "handler_B env rt req_body s =
     (let cfg = config_AB env; c = destructure req_body
      in if rejects cfg c then (rejection c, s)
         else try_catch (try_B cfg rt c) (catch_B c) s)"

record request =
  req_method :: string
  req_body :: json

definition handler_C :: "environment \<Rightarrow> runtime \<Rightarrow> request \<Rightarrow> state \<Rightarrow> reply \<times> state" where
  "handler_C env rt req s =
     (if req_method req \<noteq> ''POST'' then (res_status_send 405 ''Method Not Allowed'', s)
      else let cfg = config_C env; c = destructure (req_body req)
           in if rejects cfg c then (rejection c, s)
              else try_catch (try_C cfg rt c) (catch_AC c) s)"

section \<open>The three variants side by side\<close>

text \<open>
  The properties below are stated once for all three variants. \<open>handler_of\<close> gives each
  variant the whole request; the Express route of variants A and B passes on the body of a
  POST request.
\<close>

datatype variant = Variant_A | Variant_B | Variant_C

fun config_of :: "variant \<Rightarrow> environment \<Rightarrow> config" where
  "config_of Variant_A env = config_AB env"
| "config_of Variant_B env = config_AB env"
| "config_of Variant_C env = config_C env"

fun search_of :: "variant \<Rightarrow> runtime \<Rightarrow> json \<Rightarrow> json \<Rightarrow> json io" where
  "search_of Variant_A = searchCustomer_A"
| "search_of Variant_B = searchCustomer_B"
| "search_of Variant_C = searchCustomer_C"

fun create_of :: "variant \<Rightarrow> runtime \<Rightarrow> json \<Rightarrow> json \<Rightarrow> json \<Rightarrow> json io" where
  "create_of Variant_A = createCustomer"
| "create_of Variant_B = createCustomer_B"
| "create_of Variant_C = createCustomer"

fun book_of :: "variant \<Rightarrow> config \<Rightarrow> runtime \<Rightarrow> json \<Rightarrow> json \<Rightarrow> json \<Rightarrow> json io" where
  "book_of Variant_A = createSquareBooking"
| "book_of Variant_B = createSquareBooking_B"
| "book_of Variant_C = createSquareBooking"

fun success_of :: "variant \<Rightarrow> tool_call \<Rightarrow> json \<Rightarrow> reply" where
  "success_of Variant_A = success_AC"
| "success_of Variant_B = success_B"
| "success_of Variant_C = success_AC"

fun catch_of :: "variant \<Rightarrow> tool_call \<Rightarrow> js_error \<Rightarrow> reply" where
  "catch_of Variant_A = catch_AC"
| "catch_of Variant_B = catch_B"
| "catch_of Variant_C = catch_AC"

fun handler_of :: "variant \<Rightarrow> environment \<Rightarrow> runtime \<Rightarrow> request \<Rightarrow> state \<Rightarrow> reply \<times> state" where
  "handler_of Variant_A env rt req = handler_A env rt (req_body req)"
| "handler_of Variant_B env rt req = handler_B env rt (req_body req)"
| "handler_of Variant_C env rt req = handler_C env rt req"

text \<open>The tool call of a request, and the requests that pass the input validation.\<close>

definition call_of :: "request \<Rightarrow> tool_call" where
  "call_of req = destructure (req_body req)"

definition passes_validation :: "variant \<Rightarrow> environment \<Rightarrow> request \<Rightarrow> bool" where
  "passes_validation v env req =
     (req_method req = ''POST'' \<and> \<not> rejects (config_of v env) (call_of req))"

text \<open>
  A value that \<^verbatim>\<open>JSON.parse\<close> can return has no \<^verbatim>\<open>undefined\<close> inside; a request body
  is such a value, or is absent.
\<close>

fun is_json :: "json \<Rightarrow> bool" where
  "is_json JUndef = False"
| "is_json (JArr xs) = list_all is_json xs"
| "is_json (JObj kvs) = list_all (\<lambda>(k, v). is_json v) kvs"
| "is_json v = True"

definition jsonish :: "json \<Rightarrow> bool" where
  "jsonish v = (v = JUndef \<or> is_json v)"

text \<open>The entry of a reply whose body is \<^verbatim>\<open>{ results: [entry] }\<close>, with exactly one entry.\<close>

definition single_result :: "reply \<Rightarrow> json option" where
  "single_result r =
     (case content r of
        Json (JObj [(k, JArr [entry])]) \<Rightarrow> if k = ''results'' then Some entry else None
      | _ \<Rightarrow> None)"

text \<open>The URLs of the requests sent to the provider between two states, in order.\<close>

definition urls_called :: "state \<Rightarrow> state \<Rightarrow> string list" where
  "urls_called s s' = map url (drop (length (sent s)) (sent s'))"

section \<open>Scenarios\<close>

text \<open>
  Concrete requests, environments and providers, on which the properties below are tried.
  \<open>body_abc\<close> is the request of the scenario of section 8 of the specification.
\<close>

definition tool_args :: json where
  "tool_args =
     JObj [(''customer_name'', JStr ''Jane Doe''), (''customer_phone'', JStr ''+15551234567''),
           (''start_time'', JStr ''2025-01-01T10:00:00Z''), (''service_name'', JStr ''Haircut'')]"

definition body_abc :: json where
  "body_abc =
     JObj [(''functionName'', JStr ''schedule_square_appointment''), (''toolCallId'', JStr ''abc''),
           (''args'', tool_args)]"

definition body_no_id :: json where
  "body_no_id = JObj [(''functionName'', JStr ''schedule_square_appointment''), (''args'', tool_args)]"

definition body_no_phone :: json where
  "body_no_phone =
     JObj [(''functionName'', JStr ''schedule_square_appointment''), (''toolCallId'', JStr ''abc''),
           (''args'', JObj [(''customer_name'', JStr ''Jane Doe''),
                            (''start_time'', JStr ''2025-01-01T10:00:00Z''),
                            (''service_name'', JStr ''Haircut'')])]"

definition body_wrong_function :: json where
  "body_wrong_function =
     JObj [(''functionName'', JStr ''cancel_appointment''), (''toolCallId'', JStr ''abc''),
           (''args'', tool_args)]"

definition post :: "json \<Rightarrow> request" where
  "post b = \<lparr>req_method = ''POST'', req_body = b\<rparr>"

definition env_set :: environment where
  "env_set =
     \<lparr>SQUARE_TOKEN = Some ''token'', SQUARE_LOCATION_ID = Some ''LOC1'',
      SQUARE_SERVICE_ID = Some ''SVC1'', SQUARE_TEAM_ID = Some ''TEAM1''\<rparr>"

definition state0 :: state where
  "state0 = \<lparr>sent = [], reads = 0\<rparr>"

text \<open>Provider answers, and a provider that answers each of the three URLs with one of them.\<close>

definition answers :: "nat \<Rightarrow> json \<Rightarrow> fetch_result" where
  "answers n data = Responded \<lparr>status = n, json_body = Inr data\<rparr>"

definition provider_with :: "fetch_result \<Rightarrow> fetch_result \<Rightarrow> fetch_result \<Rightarrow> http_request \<Rightarrow> fetch_result" where
  "provider_with on_search on_create on_booking rq =
     (if url rq = searchUrl then on_search
      else if url rq = createUrl then on_create
      else on_booking)"

text \<open>
  A host whose clock stands still and whose random number does not change; no scenario
  compares a string with zero. \<open>host_same_instant\<close> below draws two random numbers that
  share their first six digits.
\<close>

definition host :: "(http_request \<Rightarrow> fetch_result) \<Rightarrow> runtime" where
  "host p =
     \<lparr>provider = p, date_now = (\<lambda>n. 1735725600000), random36 = (\<lambda>n. ''0.4fzyo82mvyr''),
      string_gt_zero = (\<lambda>s. False)\<rparr>"

definition no_match :: fetch_result where
  "no_match = answers 200 (JObj [])"

definition customer_CUST1 :: fetch_result where
  "customer_CUST1 = answers 200 (JObj [(''customer'', JObj [(''id'', JStr ''CUST1'')])])"

definition booking_BOOK1 :: fetch_result where
  "booking_BOOK1 = answers 200 (JObj [(''booking'', JObj [(''id'', JStr ''BOOK1'')])])"

definition found_CUST1 :: fetch_result where
  "found_CUST1 = answers 200 (JObj [(''customers'', JArr [JObj [(''id'', JStr ''CUST1'')]])])"

definition get_request :: "json \<Rightarrow> request" where
  "get_request b = \<lparr>req_method = ''GET'', req_body = b\<rparr>"

definition two_lines :: string where
  "two_lines = ''Start time is in the past.'' @ [CHR 0x0A] @ ''Pick another time.''"

definition booking_refused :: fetch_result where
  "booking_refused = answers 400 (JObj [(''errors'', JArr [JObj [(''detail'', JStr two_lines)]])])"

definition booking_missing :: fetch_result where
  "booking_missing = answers 200 (JObj [])"

definition too_many_requests :: fetch_result where
  "too_many_requests =
     answers 429 (JObj [(''errors'', JArr [JObj [(''detail'', JStr ''Too many requests.'')]])])"

definition host_same_instant :: "(http_request \<Rightarrow> fetch_result) \<Rightarrow> runtime" where
  "host_same_instant p =
     \<lparr>provider = p, date_now = (\<lambda>n. 1735725600000),
      random36 = (\<lambda>n. if n = 0 then ''0.4fzyo82mvyr'' else ''0.4fzyo8zk31c''),
      string_gt_zero = (\<lambda>s. False)\<rparr>"




section \<open>The name split of the specification\<close>

text \<open>
  The splitting of \<^verbatim>\<open>customer_name\<close> in the words of the specification: the tokens are the
  maximal runs of characters that are not whitespace; the first token is the given name,
  the remaining tokens joined by single spaces are the family name, which is \<^verbatim>\<open>Client\<close>
  when there is only one token. These two definitions follow the specification, not the
  code; \<open>split_fullName\<close>, \<open>given_name\<close> and \<open>family_name\<close> above follow the code.
\<close>

definition is_whitespace :: "char \<Rightarrow> bool" where
  "is_whitespace ch = (ch \<in> set [CHR 0x20, CHR 0x09, CHR 0x0A, CHR 0x0B, CHR 0x0C, CHR 0x0D])"

function ws_tokens :: "string \<Rightarrow> string list" where
  "ws_tokens s =
     (case dropWhile is_whitespace s of
        [] \<Rightarrow> []
      | c # cs \<Rightarrow> (c # takeWhile (\<lambda>x. \<not> is_whitespace x) cs)
                 # ws_tokens (dropWhile (\<lambda>x. \<not> is_whitespace x) cs))"
  by pat_completeness auto
termination
proof (relation "measure length")
  show "wf (measure length)" by simp
next
  fix s :: string and c cs
  assume a: "dropWhile is_whitespace s = c # cs"
  have "length (dropWhile (\<lambda>x. \<not> is_whitespace x) cs) \<le> length cs"
    by (rule length_dropWhile_le)
  moreover have "length (c # cs) \<le> length s"
    using length_dropWhile_le [of is_whitespace s] a by simp
  ultimately show "(dropWhile (\<lambda>x. \<not> is_whitespace x) cs, s) \<in> measure length"
    by simp
qed

declare ws_tokens.simps [simp del]

definition spec_names :: "string \<Rightarrow> (string \<times> string) option" where
  "spec_names s =
     (case ws_tokens s of
        [] \<Rightarrow> None
      | t # ts \<Rightarrow> Some (t, if ts = [] then ''Client'' else js_join CHR '' '' ts))"

section \<open>Basic facts\<close>

subsection \<open>JSON values\<close>

lemma wire_is_json: "is_json v \<Longrightarrow> wire v = v"
proof (induction v)
  case (JArr xs)
  have "\<forall>x\<in>set xs. x \<noteq> JUndef"
    using JArr.prems by (auto simp: list_all_iff)
  then have "map (\<lambda>x. if x = JUndef then JNull else wire x) xs = xs"
    using JArr by (auto simp: list_all_iff intro!: map_idI)
  then show ?case by simp
next
  case (JObj kvs)
  have "filter (\<lambda>(k, v). v \<noteq> JUndef) kvs = kvs"
    using JObj.prems by (auto simp: list_all_iff intro!: filter_True)
  moreover have "map (\<lambda>(k, v). (k, wire v)) kvs = kvs"
    using JObj by (auto simp: list_all_iff intro!: map_idI)
  ultimately show ?case by simp
qed simp_all

lemma wire_jsonish: "jsonish v \<Longrightarrow> wire v = v"
  by (auto simp: jsonish_def wire_is_json)

lemma index_of_less: "index_of k n = Some i \<Longrightarrow> i < n"
  by (auto simp: index_of_def find_Some_iff)

lemma read_prop_jsonish: "jsonish v \<Longrightarrow> jsonish (read_prop v k)"
proof (cases v)
  case (JObj kvs)
  assume "jsonish v"
  with JObj show ?thesis
    by (auto simp: jsonish_def list_all_iff split: option.splits dest!: map_of_SomeD)
next
  case (JArr xs)
  assume "jsonish v"
  with JArr show ?thesis
    by (auto simp: jsonish_def list_all_iff split: option.splits dest!: index_of_less)
next
  case (JStr s)
  then show ?thesis by (auto simp: jsonish_def split: option.splits)
qed (simp_all add: jsonish_def)

lemma toolCallId_jsonish: "jsonish b \<Longrightarrow> jsonish (toolCallId (destructure b))"
proof -
  assume "jsonish b"
  then have "jsonish (or_else b (JObj []))"
    by (simp add: or_else_def jsonish_def)
  then show ?thesis
    by (simp add: destructure_def Let_def read_prop_jsonish)
qed

lemma single_result_results:
  "single_result (res_status_json n (results tid msg)) =
     Some (JObj ((if tid = JUndef then [] else [(''toolCallId'', wire tid)]) @ [(''result'', JStr msg)]))"
  by (simp add: single_result_def res_status_json_def results_def)

subsection \<open>How the helpers change the state\<close>

lemma io_bind_apply:
  "io_bind m f s = (case fst (m s) of Inl e \<Rightarrow> (Inl e, snd (m s)) | Inr x \<Rightarrow> f x (snd (m s)))"
  by (simp add: io_bind_def split: prod.splits sum.splits)

lemmas io_simps = io_bind_apply io_return_def io_throw_def io_of_def



















subsection \<open>The shape of a run\<close>

lemma resolve_customer_apply:
  "resolve_customer search create cfg c s =
     (case fst (search (customer_phone c) (TOKEN cfg) s) of
        Inl e \<Rightarrow> (Inl e, snd (search (customer_phone c) (TOKEN cfg) s))
      | Inr found \<Rightarrow>
          if truthy found then (Inr found, snd (search (customer_phone c) (TOKEN cfg) s))
          else (case fst (create (customer_name c) (customer_phone c) (TOKEN cfg)
                           (snd (search (customer_phone c) (TOKEN cfg) s))) of
                  Inl e \<Rightarrow> (Inl e, snd (create (customer_name c) (customer_phone c) (TOKEN cfg)
                           (snd (search (customer_phone c) (TOKEN cfg) s))))
                | Inr created \<Rightarrow>
                    (if truthy created then Inr created else Inl (Error failed_to_secure),
                     snd (create (customer_name c) (customer_phone c) (TOKEN cfg)
                           (snd (search (customer_phone c) (TOKEN cfg) s))))))"
  by (simp add: resolve_customer_def io_simps split: sum.splits)

lemma try_block_apply:
  "try_block search create book success cfg c s =
     (case fst (resolve_customer search create cfg c s) of
        Inl e \<Rightarrow> (Inl e, snd (resolve_customer search create cfg c s))
      | Inr customer_id \<Rightarrow>
          (case fst (book customer_id (start_time c) (TOKEN cfg)
                      (snd (resolve_customer search create cfg c s))) of
             Inl e \<Rightarrow> (Inl e, snd (book customer_id (start_time c) (TOKEN cfg)
                      (snd (resolve_customer search create cfg c s))))
           | Inr bookingId \<Rightarrow> (Inr (success c bookingId),
                 snd (book customer_id (start_time c) (TOKEN cfg)
                      (snd (resolve_customer search create cfg c s))))))"
  by (simp add: try_block_def io_simps split: sum.splits)

lemma handler_of_POST:
  "req_method req = ''POST'' \<Longrightarrow>
   handler_of v env rt req s =
     (if rejects (config_of v env) (call_of req) then (rejection (call_of req), s)
      else try_catch (try_block (search_of v rt) (create_of v rt) (book_of v (config_of v env) rt)
                        (success_of v) (config_of v env) (call_of req))
             (catch_of v (call_of req)) s)"
  by (cases v)
    (simp_all add: handler_A_def handler_B_def handler_C_def Let_def call_of_def
      try_A_def try_B_def try_C_def)

lemma try_catch_apply:
  "try_catch block handler s =
     ((case fst (block s) of Inr r \<Rightarrow> r | Inl error \<Rightarrow> handler error), snd (block s))"
  by (simp add: try_catch_def split: prod.splits sum.splits)

lemma try_block_success:
  "fst (try_block search create book success cfg c s) = Inr r \<Longrightarrow> \<exists>b. r = success c b"
  by (auto simp: try_block_apply split: sum.splits)

lemma success_of_shape:
  "\<exists>msg. success_of v c b = res_status_json 200 (results (toolCallId c) msg)"
  by (cases v; simp add: success_AC_def success_B_def; blast)

lemma catch_of_shape:
  "\<exists>msg. catch_of v c e = res_status_json 200 (results (toolCallId c) msg)"
  by (cases v; simp add: catch_AC_def catch_B_def; blast)

lemma accepted_reply_shape:
  assumes "passes_validation v env req"
  shows "\<exists>msg. fst (handler_of v env rt req s) =
           res_status_json 200 (results (toolCallId (call_of req)) msg)"
proof -
  let ?block = "try_block (search_of v rt) (create_of v rt) (book_of v (config_of v env) rt)
                  (success_of v) (config_of v env) (call_of req)"
  have h: "fst (handler_of v env rt req s) =
      (case fst (?block s) of Inr r \<Rightarrow> r | Inl error \<Rightarrow> catch_of v (call_of req) error)"
    using assms by (simp add: handler_of_POST passes_validation_def try_catch_apply)
  show ?thesis
  proof (cases "fst (?block s)")
    case (Inl e)
    then show ?thesis using h catch_of_shape [of v "call_of req" e] by simp
  next
    case (Inr r)
    then obtain b where "r = success_of v (call_of req) b"
      using try_block_success by blast
    then show ?thesis using h Inr success_of_shape [of v "call_of req" b] by simp
  qed
qed

lemma rejected_reply:
  assumes "req_method req = ''POST''" and "rejects (config_of v env) (call_of req)"
  shows "handler_of v env rt req s =
           (res_status_json 200
              (results (or_else (toolCallId (call_of req)) (JStr ''test-error'')) configuration_error), s)"
  using assms by (simp add: handler_of_POST rejection_def)

subsection \<open>Evaluating a run\<close>

lemmas value_defs =
  get_def new_Error_def cannot_read_def or_else_def is_line_break_def strip_phone_def is_phone_char_def
  ok_def show_int_def digit_char_def index_of_def substring_2_8_def idempotency_key_def

lemmas io_defs =
  io_return_def io_throw_def io_of_def io_bind_def fetch_def response_json_def new_key_def

lemmas helper_defs =
  searchUrl_def createUrl_def bookingUrl_def square_headers_def errors_detail_or_def throw_detail_or_def
  first_customer_id_def search_body_def search_request_def searchCustomer_A_def searchCustomer_B_def
  phone_replace_def searchCustomer_C_def split_fullName_def given_name_def family_name_def
  customer_body_def customer_request_def customer_id_or_null_def createCustomer_def createCustomer_B_def
  booking_body_def booking_request_def no_booking_object_def booking_call_def createSquareBooking_def
  createSquareBooking_B_def

lemmas handler_defs =
  env_value_def config_AB_def config_C_def token_literal_C_def
  res_status_json_def res_status_send_def results_def destructure_def rejects_def configuration_error_def
  rejection_def failed_to_secure_def resolve_customer_def success_AC_def success_B_def catch_AC_def
  catch_B_def try_block_def try_A_def try_B_def try_C_def try_catch_def handler_A_def handler_B_def
  handler_C_def call_of_def passes_validation_def

lemmas scenario_defs =
  tool_args_def body_abc_def body_no_id_def body_no_phone_def body_wrong_function_def post_def
  env_set_def state0_def answers_def provider_with_def host_def no_match_def customer_CUST1_def
  booking_BOOK1_def found_CUST1_def

lemmas run_defs = value_defs io_defs helper_defs handler_defs scenario_defs

subsection \<open>The five ways through the try block\<close>

lemma run_search_fails:
  assumes "passes_validation v env req"
    and "fst (search_of v rt (customer_phone (call_of req)) (TOKEN (config_of v env)) s) = Inl e"
  shows "handler_of v env rt req s =
           (catch_of v (call_of req) e,
            snd (search_of v rt (customer_phone (call_of req)) (TOKEN (config_of v env)) s))"
  using assms
  by (simp add: handler_of_POST passes_validation_def try_catch_apply try_block_apply
      resolve_customer_apply)






lemma code_res_status_json: "code (res_status_json n j) = n"
  by (simp add: res_status_json_def)

lemma or_else_sentinel_jsonish:
  "jsonish t \<Longrightarrow> jsonish (or_else t (JStr ''test-error''))"
  by (simp add: or_else_def jsonish_def)

lemma or_else_sentinel_defined: "or_else t (JStr ''test-error'') \<noteq> JUndef"
  by (cases t) (simp_all add: or_else_def)

lemmas scenario3_defs = two_lines_def booking_refused_def booking_missing_def too_many_requests_def

subsection \<open>Line breaks\<close>

lemma replace_line_breaks_clean:
  "\<forall>ch\<in>set (replace_line_breaks m). \<not> is_line_break ch"
proof (induction m rule: replace_line_breaks.induct)
  case 1
  show ?case by simp
next
  case (2 c cs)
  show ?case
  proof (cases "is_line_break c")
    case True
    have "\<not> is_line_break CHR '' ''"
      by (simp add: is_line_break_def)
    then show ?thesis using True "2.IH"(1) by simp
  next
    case False
    then show ?thesis using "2.IH"(2) by simp
  qed
qed

lemma replace_line_breaks_same:
  "\<forall>ch\<in>set m. \<not> is_line_break ch \<Longrightarrow> replace_line_breaks m = m"
proof (induction m)
  case Nil
  show ?case by simp
next
  case (Cons c cs)
  then show ?case by simp
qed

lemma dropWhile_run:
  assumes "\<forall>ch\<in>set r. is_line_break ch" and "b = [] \<or> \<not> is_line_break (hd b)"
  shows "dropWhile is_line_break (r @ b) = b"
proof -
  have "dropWhile is_line_break (r @ b) = dropWhile is_line_break b"
    using assms(1) by (simp add: dropWhile_append2)
  also have "\<dots> = b"
    using assms(2) by (cases b) auto
  finally show ?thesis .
qed

lemma replace_line_breaks_run:
  assumes "r \<noteq> []" and "\<forall>ch\<in>set r. is_line_break ch"
    and "a = [] \<or> \<not> is_line_break (last a)"
    and "b = [] \<or> \<not> is_line_break (hd b)"
  shows "replace_line_breaks (a @ r @ b) = replace_line_breaks a @ '' '' @ replace_line_breaks b"
  using assms(3)
proof (induction a rule: replace_line_breaks.induct)
  case 1
  obtain x r' where r: "r = x # r'"
    using assms(1) by (cases r) auto
  then have "is_line_break x" "\<forall>ch\<in>set r'. is_line_break ch"
    using assms(2) by auto
  then show ?case
    using r dropWhile_run [of r' b] assms(4) by simp
next
  case (2 x xs)
  show ?case
  proof (cases "is_line_break x")
    case True
    then have ne: "xs \<noteq> []" and l: "\<not> is_line_break (last xs)"
      using "2.prems" by (auto split: if_splits)
    then have "last xs \<in> set xs" by simp
    then have d: "dropWhile is_line_break (xs @ r @ b) = dropWhile is_line_break xs @ r @ b"
      using l by (meson dropWhile_append1)
    have dn: "dropWhile is_line_break xs \<noteq> []"
      using \<open>last xs \<in> set xs\<close> l by (auto simp: dropWhile_eq_Nil_conv)
    have "last (dropWhile is_line_break xs) = last xs"
      using ne dn by (metis last_appendR takeWhile_dropWhile_id)
    then have "dropWhile is_line_break xs = [] \<or> \<not> is_line_break (last (dropWhile is_line_break xs))"
      using l by simp
    then show ?thesis
      using "2.IH"(1) True d by simp
  next
    case False
    then have "xs = [] \<or> \<not> is_line_break (last xs)"
      using "2.prems" by (auto split: if_splits)
    then show ?thesis
      using "2.IH"(2) False by simp
  qed
qed

lemma run_try_fails:
  assumes "passes_validation v env req"
    and "fst (try_block (search_of v rt) (create_of v rt) (book_of v (config_of v env) rt)
               (success_of v) (config_of v env) (call_of req) s) = Inl e"
  shows "fst (handler_of v env rt req s) = catch_of v (call_of req) e"
  using assms by (simp add: handler_of_POST passes_validation_def try_catch_apply)

lemma rejects_ignores_phone: "rejects cfg (c\<lparr>customer_phone := p\<rparr>) = rejects cfg c"
  by (simp add: rejects_def)

lemma searchCustomer_C_no_phone:
  "searchCustomer_C rt JUndef token s = (Inl (TypeError (cannot_read JUndef ''replace'')), s)"
  by (simp add: searchCustomer_C_def phone_replace_def io_defs)

lemma cannot_read_replace_clean:
  "replace_line_breaks (cannot_read JUndef ''replace'') = cannot_read JUndef ''replace''"
  by (simp add: cannot_read_def is_line_break_def)


subsection \<open>Idempotency keys\<close>

lemma digit_char_inj: "a < 10 \<Longrightarrow> b < 10 \<Longrightarrow> digit_char a = digit_char b \<Longrightarrow> a = b"
proof -
  assume a: "a < 10" and b: "b < 10" and e: "digit_char a = digit_char b"
  have "distinct ''0123456789''" by simp
  moreover have "a < length ''0123456789''" "b < length ''0123456789''"
    using a b by simp_all
  ultimately show "a = b"
    using e unfolding digit_char_def by (simp only: nth_eq_iff_index_eq)
qed

lemma digit_char_not_dash: "a < 10 \<Longrightarrow> digit_char a \<noteq> CHR ''-''"
proof -
  assume "a < 10"
  then have "a < length ''0123456789''" by simp
  then have "''0123456789'' ! a \<in> set ''0123456789''"
    by (rule nth_mem)
  then show ?thesis unfolding digit_char_def by auto
qed

lemma show_nat_no_dash: "CHR ''-'' \<notin> set (show_nat n)"
proof (induction n rule: show_nat.induct)
  case (1 n)
  show ?case
  proof (cases "n < 10")
    case True
    then show ?thesis
      using digit_char_not_dash [of n] by (simp add: show_nat.simps [of n])
  next
    case False
    have "n mod 10 < 10" by simp
    then have "digit_char (n mod 10) \<noteq> CHR ''-''"
      by (rule digit_char_not_dash)
    then show ?thesis
      using False 1 by (simp add: show_nat.simps [of n])
  qed
qed

lemma show_nat_not_Nil: "show_nat n \<noteq> []"
  by (simp add: show_nat.simps [of n])

lemma show_nat_inj: "show_nat a = show_nat b \<Longrightarrow> a = b"
proof (induction a arbitrary: b rule: show_nat.induct)
  case (1 a)
  show ?case
  proof (cases "a < 10")
    case True
    show ?thesis
    proof (cases "b < 10")
      case b: True
      then show ?thesis
        using True "1.prems" digit_char_inj [of a b]
        by (simp add: show_nat.simps [of a] show_nat.simps [of b])
    next
      case False
      then show ?thesis
        using True "1.prems" show_nat_not_Nil [of "b div 10"]
        by (simp add: show_nat.simps [of a] show_nat.simps [of b])
    qed
  next
    case False
    show ?thesis
    proof (cases "b < 10")
      case True
      then show ?thesis
        using False "1.prems" show_nat_not_Nil [of "a div 10"]
        by (simp add: show_nat.simps [of a] show_nat.simps [of b])
    next
      case b: False
      have "show_nat (a div 10) @ [digit_char (a mod 10)] = show_nat (b div 10) @ [digit_char (b mod 10)]"
        using False b "1.prems" by (simp add: show_nat.simps [of a] show_nat.simps [of b])
      then have q: "show_nat (a div 10) = show_nat (b div 10)"
        and r: "digit_char (a mod 10) = digit_char (b mod 10)"
        by simp_all
      have "a div 10 = b div 10"
        using "1.IH" [OF False q] .
      moreover have "a mod 10 = b mod 10"
        using r digit_char_inj [of "a mod 10" "b mod 10"] by simp
      ultimately show ?thesis
        by (metis div_mult_mod_eq)
    qed
  qed
qed

lemma takeWhile_until:
  "ch \<notin> set xs \<Longrightarrow> takeWhile (\<lambda>x. x \<noteq> ch) (xs @ ch # u) = xs"
  by (induction xs) auto

lemma split_at_separator:
  assumes "ch \<notin> set xs" and "ch \<notin> set ys" and "xs @ ch # u = ys @ ch # w"
  shows "xs = ys \<and> u = w"
proof -
  have "takeWhile (\<lambda>x. x \<noteq> ch) (xs @ ch # u) = xs"
    using assms(1) by (rule takeWhile_until)
  moreover have "takeWhile (\<lambda>x. x \<noteq> ch) (ys @ ch # w) = ys"
    using assms(2) by (rule takeWhile_until)
  ultimately have "xs = ys"
    using assms(3) by simp
  then show ?thesis using assms(3) by simp
qed

lemma key_prefix_differ:
  "key_prefix CustomerKey @ x \<noteq> key_prefix BookingKey @ y"
  by simp

lemma idempotency_key_eq:
  "(idempotency_key k1 t1 r1 = idempotency_key k2 t2 r2)
     = (k1 = k2 \<and> t1 = t2 \<and> substring_2_8 r1 = substring_2_8 r2)"
proof
  assume e: "idempotency_key k1 t1 r1 = idempotency_key k2 t2 r2"
  have k: "k1 = k2"
  proof (cases k1)
    case CustomerKey
    show ?thesis
    proof (cases k2)
      case BookingKey
      have "key_prefix CustomerKey @ (show_nat t1 @ ''-'' @ substring_2_8 r1)
          = key_prefix BookingKey @ (show_nat t2 @ ''-'' @ substring_2_8 r2)"
        using e unfolding idempotency_key_def CustomerKey BookingKey .
      then show ?thesis using key_prefix_differ by blast
    qed (simp add: CustomerKey)
  next
    case BookingKey
    show ?thesis
    proof (cases k2)
      case CustomerKey
      have "key_prefix CustomerKey @ (show_nat t2 @ ''-'' @ substring_2_8 r2)
          = key_prefix BookingKey @ (show_nat t1 @ ''-'' @ substring_2_8 r1)"
        using e unfolding idempotency_key_def CustomerKey BookingKey by (rule sym)
      then show ?thesis using key_prefix_differ by blast
    qed (simp add: BookingKey)
  qed
  have "key_prefix k1 @ (show_nat t1 @ CHR ''-'' # substring_2_8 r1)
      = key_prefix k1 @ (show_nat t2 @ CHR ''-'' # substring_2_8 r2)"
    using e k unfolding idempotency_key_def by simp
  then have "show_nat t1 @ CHR ''-'' # substring_2_8 r1 = show_nat t2 @ CHR ''-'' # substring_2_8 r2"
    by (simp only: same_append_eq)
  then have "show_nat t1 = show_nat t2 \<and> substring_2_8 r1 = substring_2_8 r2"
    by (rule split_at_separator [OF show_nat_no_dash show_nat_no_dash])
  then show "k1 = k2 \<and> t1 = t2 \<and> substring_2_8 r1 = substring_2_8 r2"
    using k show_nat_inj [of t1 t2] by simp
next
  assume "k1 = k2 \<and> t1 = t2 \<and> substring_2_8 r1 = substring_2_8 r2"
  then show "idempotency_key k1 t1 r1 = idempotency_key k2 t2 r2"
    by (simp add: idempotency_key_def)
qed

subsection \<open>Splitting and joining\<close>

lemma js_split_not_Nil: "js_split sep s \<noteq> []"
  by (induction s) (auto split: list.splits)

lemma js_split_unfold:
  "js_split sep s =
     takeWhile (\<lambda>x. x \<noteq> sep) s
     # (case dropWhile (\<lambda>x. x \<noteq> sep) s of [] \<Rightarrow> [] | x # rest \<Rightarrow> js_split sep rest)"
proof (induction s)
  case Nil
  show ?case by simp
next
  case (Cons c cs)
  show ?case
  proof (cases "c = sep")
    case True
    then show ?thesis by simp
  next
    case False
    then show ?thesis using Cons by simp
  qed
qed

lemma js_join_split: "js_join sep (js_split sep s) = s"
proof (induction s)
  case Nil
  show ?case by simp
next
  case (Cons c cs)
  obtain p ps where ps: "js_split sep cs = p # ps"
    using js_split_not_Nil [of sep cs] by (cases "js_split sep cs") auto
  show ?case
  proof (cases "c = sep")
    case True
    then show ?thesis using Cons ps by simp
  next
    case False
    show ?thesis
    proof (cases ps)
      case Nil
      then show ?thesis using False Cons ps by simp
    next
      case (Cons q qs)
      then show ?thesis using False Cons.IH ps by simp
    qed
  qed
qed

lemma js_split_no_sep: "sep \<notin> set t \<Longrightarrow> js_split sep t = [t]"
proof -
  assume a: "sep \<notin> set t"
  have tw: "takeWhile (\<lambda>x. x \<noteq> sep) t = t"
    using a by (auto simp: takeWhile_eq_all_conv)
  have dw: "dropWhile (\<lambda>x. x \<noteq> sep) t = []"
    using a by auto
  show ?thesis
    by (subst js_split_unfold) (simp only: tw dw list.case)
qed

lemma js_split_at_sep: "sep \<notin> set t \<Longrightarrow> js_split sep (t @ sep # r) = t # js_split sep r"
proof -
  assume a: "sep \<notin> set t"
  have tw: "takeWhile (\<lambda>x. x \<noteq> sep) (t @ sep # r) = t"
    using a by (rule takeWhile_until)
  have dw: "dropWhile (\<lambda>x. x \<noteq> sep) (t @ sep # r) = sep # r"
    using a by (induction t) auto
  show ?thesis
    by (subst js_split_unfold) (simp only: tw dw list.case)
qed

lemma js_split_join:
  "ts \<noteq> [] \<Longrightarrow> \<forall>t\<in>set ts. sep \<notin> set t \<Longrightarrow> js_split sep (js_join sep ts) = ts"
proof (induction sep ts rule: js_join.induct)
  case (1 sep)
  then show ?case by simp
next
  case (2 sep p)
  then show ?case by (simp add: js_split_no_sep)
next
  case (3 sep p q ps)
  then show ?case by (simp add: js_split_at_sep)
qed

lemma given_name_split:
  "given_name (js_split sep s) = JStr (takeWhile (\<lambda>x. x \<noteq> sep) s)"
  using js_split_unfold [of sep s] by (simp add: given_name_def)

lemma family_name_split:
  "family_name (js_split CHR '' '' s) =
     JStr (if CHR '' '' \<in> set s then tl (dropWhile (\<lambda>x. x \<noteq> CHR '' '') s) else ''Client'')"
proof (cases "CHR '' '' \<in> set s")
  case True
  then obtain x rest where d: "dropWhile (\<lambda>x. x \<noteq> CHR '' '') s = x # rest"
    by (cases "dropWhile (\<lambda>x. x \<noteq> CHR '' '') s") (auto simp: dropWhile_eq_Nil_conv)
  then have u: "js_split CHR '' '' s = takeWhile (\<lambda>x. x \<noteq> CHR '' '') s # js_split CHR '' '' rest"
    using js_split_unfold [of "CHR '' ''" s] by simp
  have "length (js_split CHR '' '' s) > 1"
    using u js_split_not_Nil [of "CHR '' ''" rest] by (cases "js_split CHR '' '' rest") auto
  moreover have "js_join CHR '' '' (drop 1 (js_split CHR '' '' s)) = rest"
    using u by (simp add: js_join_split)
  ultimately show ?thesis
    using True d by (simp add: family_name_def)
next
  case False
  then have "js_split CHR '' '' s = [s]"
    by (rule js_split_no_sep)
  then show ?thesis using False by (simp add: family_name_def)
qed

lemma ws_tokens_Nil: "ws_tokens [] = []"
  by (subst ws_tokens.simps) simp

lemma ws_tokens_skip: "is_whitespace ch \<Longrightarrow> ws_tokens (ch # s) = ws_tokens s"
  by (subst ws_tokens.simps, subst (2) ws_tokens.simps) simp

lemma ws_tokens_word:
  assumes "t \<noteq> []" and "\<forall>ch\<in>set t. \<not> is_whitespace ch"
    and "r = [] \<or> is_whitespace (hd r)"
  shows "ws_tokens (t @ r) = t # ws_tokens r"
proof -
  obtain c cs where t: "t = c # cs"
    using assms(1) by (cases t) auto
  have d: "dropWhile is_whitespace ((c # cs) @ r) = c # (cs @ r)"
    using t assms(2) by simp
  have tw: "takeWhile (\<lambda>x. \<not> is_whitespace x) (cs @ r) = cs"
    using t assms(2,3) by (cases r) (auto simp: takeWhile_append2 takeWhile_eq_all_conv)
  have dw: "dropWhile (\<lambda>x. \<not> is_whitespace x) (cs @ r) = r"
    using t assms(2,3) by (cases r) (auto simp: dropWhile_append2)
  show ?thesis
    unfolding t by (subst ws_tokens.simps) (simp only: d tw dw list.case)
qed

lemma space_is_whitespace: "is_whitespace CHR '' ''"
  by (simp add: is_whitespace_def)

lemma ws_tokens_join:
  "\<forall>t\<in>set ts. t \<noteq> [] \<and> (\<forall>ch\<in>set t. \<not> is_whitespace ch)
   \<Longrightarrow> ws_tokens (js_join CHR '' '' ts) = ts"
proof (induction "CHR '' ''" ts rule: js_join.induct)
  case 1
  show ?case by (simp add: ws_tokens_Nil)
next
  case (2 p)
  then show ?case
    using ws_tokens_word [of p "[]"] by (simp add: ws_tokens_Nil)
next
  case (3 p q ps)
  have "ws_tokens (p @ CHR '' '' # js_join CHR '' '' (q # ps))
      = p # ws_tokens (CHR '' '' # js_join CHR '' '' (q # ps))"
    using 3(2) by (intro ws_tokens_word) (simp_all add: space_is_whitespace)
  also have "\<dots> = p # ws_tokens (js_join CHR '' '' (q # ps))"
    by (simp add: ws_tokens_skip space_is_whitespace)
  also have "\<dots> = p # q # ps"
    using 3 by simp
  finally show ?case by simp
qed

subsection \<open>The outcome of the booking call\<close>








subsection \<open>The requests of a run\<close>


subsection \<open>What a caught error is answered with\<close>

text \<open>
  What each variant's \<^verbatim>\<open>catch\<close> block answers when the \<^verbatim>\<open>try\<close> block throws \<open>e\<close>, and
  what \<open>replace_line_breaks\<close> does to a message.
\<close>

lemma caught_errors_are_answered:
  fixes v env rt req s
  defines "answer \<equiv> fst (handler_of v env rt req s)"
  assumes "passes_validation v env req"
    and "fst (try_block (search_of v rt) (create_of v rt) (book_of v (config_of v env) rt)
               (success_of v) (config_of v env) (call_of req) s) = Inl e"
  shows "code answer = 200
    \<and> (\<exists>entry. single_result answer = Some entry
          \<and> read_prop entry ''result'' =
               JStr (if v = Variant_B
                     then ''I encountered a system error and could not finalize the booking. Failure Detail: ''
                          @ message e
                     else ''Booking failed. Failure Detail: ''
                          @ (if message e \<noteq> [] then replace_line_breaks (message e)
                             else ''Unknown API Error.'')))
    \<and> (\<forall>ch\<in>set (replace_line_breaks (message e)). \<not> is_line_break ch)
    \<and> ((\<forall>ch\<in>set (message e). \<not> is_line_break ch) \<longrightarrow> replace_line_breaks (message e) = message e)
    \<and> (\<forall>a r b. message e = a @ r @ b \<and> r \<noteq> [] \<and> (\<forall>ch\<in>set r. is_line_break ch)
           \<and> (a = [] \<or> \<not> is_line_break (last a)) \<and> (b = [] \<or> \<not> is_line_break (hd b))
         \<longrightarrow> replace_line_breaks (message e) = replace_line_breaks a @ '' '' @ replace_line_breaks b)"
proof -
  have a: "answer = catch_of v (call_of req) e"
    using run_try_fails [OF assms(2,3)] by (simp add: answer_def)
  have c1: "code answer = 200"
    using a by (cases v) (simp_all add: catch_AC_def catch_B_def code_res_status_json)
  have c2: "\<exists>entry. single_result answer = Some entry
          \<and> read_prop entry ''result'' =
               JStr (if v = Variant_B
                     then ''I encountered a system error and could not finalize the booking. Failure Detail: ''
                          @ message e
                     else ''Booking failed. Failure Detail: ''
                          @ (if message e \<noteq> [] then replace_line_breaks (message e)
                             else ''Unknown API Error.''))"
    using a by (cases v) (simp_all add: catch_AC_def catch_B_def single_result_results)
  have c3: "\<forall>ch\<in>set (replace_line_breaks (message e)). \<not> is_line_break ch"
    by (rule replace_line_breaks_clean)
  have c4: "(\<forall>ch\<in>set (message e). \<not> is_line_break ch) \<longrightarrow> replace_line_breaks (message e) = message e"
    using replace_line_breaks_same by blast
  have c5: "\<forall>a r b. message e = a @ r @ b \<and> r \<noteq> [] \<and> (\<forall>ch\<in>set r. is_line_break ch)
           \<and> (a = [] \<or> \<not> is_line_break (last a)) \<and> (b = [] \<or> \<not> is_line_break (hd b))
         \<longrightarrow> replace_line_breaks (message e) = replace_line_breaks a @ '' '' @ replace_line_breaks b"
  proof (intro allI impI)
    fix a r b
    assume h: "message e = a @ r @ b \<and> r \<noteq> [] \<and> (\<forall>ch\<in>set r. is_line_break ch)
           \<and> (a = [] \<or> \<not> is_line_break (last a)) \<and> (b = [] \<or> \<not> is_line_break (hd b))"
    then have "replace_line_breaks (a @ r @ b) = replace_line_breaks a @ '' '' @ replace_line_breaks b"
      by (intro replace_line_breaks_run) simp_all
    then show "replace_line_breaks (message e) = replace_line_breaks a @ '' '' @ replace_line_breaks b"
      using h by simp
  qed
  show ?thesis
    by (rule conjI [OF c1 conjI [OF c2 conjI [OF c3 conjI [OF c4 c5]]]])
qed

subsection \<open>What the search returns\<close>








subsection \<open>When the booking call returns\<close>




section \<open>The claims\<close>

subsection \<open>C1: one result entry, echoing the tool call\<close>

text \<open>
  Claim C1, as amended. Every POST request whose body is absent or a JSON value is
  answered with status 200 and a body \<^verbatim>\<open>{ results: [entry] }\<close> of exactly one entry, whose
  \<^verbatim>\<open>result\<close> is a string. When the validation rejects the request, the entry's
  \<^verbatim>\<open>toolCallId\<close> is the inbound one if that is truthy and the sentinel \<^verbatim>\<open>test-error\<close>
  otherwise. On the success path and on the caught-failure path it is the inbound
  \<^verbatim>\<open>toolCallId\<close> as it came: an entry of a request without \<^verbatim>\<open>toolCallId\<close> has none
  (reading it gives \<^verbatim>\<open>undefined\<close>).
\<close>

theorem one_entry_echoing_the_call:
  fixes v env rt req s
  defines "answer \<equiv> fst (handler_of v env rt req s)"
  assumes "req_method req = ''POST''" and "jsonish (req_body req)"
  shows "code answer = 200
    \<and> (\<exists>entry result. single_result answer = Some entry
          \<and> read_prop entry ''result'' = JStr result
          \<and> read_prop entry ''toolCallId'' =
               (if rejects (config_of v env) (call_of req)
                then or_else (toolCallId (call_of req)) (JStr ''test-error'')
                else toolCallId (call_of req)))"
proof -
  have j: "jsonish (toolCallId (call_of req))"
    using assms(3) by (simp add: call_of_def toolCallId_jsonish)
  show ?thesis
  proof (cases "rejects (config_of v env) (call_of req)")
    case True
    have "answer = res_status_json 200
        (results (or_else (toolCallId (call_of req)) (JStr ''test-error'')) configuration_error)"
      using rejected_reply [OF assms(2) True] by (simp add: answer_def)
    moreover have "wire (or_else (toolCallId (call_of req)) (JStr ''test-error''))
        = or_else (toolCallId (call_of req)) (JStr ''test-error'')"
      using j by (simp add: wire_jsonish or_else_sentinel_jsonish)
    ultimately show ?thesis
      using True by (simp add: single_result_results or_else_sentinel_defined code_res_status_json)
  next
    case False
    then have "passes_validation v env req"
      using assms(2) by (simp add: passes_validation_def)
    then obtain msg where "answer = res_status_json 200 (results (toolCallId (call_of req)) msg)"
      using accepted_reply_shape unfolding answer_def by blast
    then show ?thesis
      using False j by (simp add: single_result_results wire_jsonish code_res_status_json)
  qed
qed

text \<open>
  Claim C1 as stated, with the sentinel on every path, fails on the success path of variant
  A: a valid request without \<^verbatim>\<open>toolCallId\<close>, whose customer is found and whose booking is
  created, is answered with an entry that has a \<^verbatim>\<open>result\<close> and no \<^verbatim>\<open>toolCallId\<close>.
\<close>

theorem absent_toolCallId_stays_absent:
  "toolCallId (call_of (post body_no_id)) = JUndef
   \<and> fst (handler_of Variant_A env_set (host (provider_with found_CUST1 customer_CUST1 booking_BOOK1))
            (post body_no_id) state0)
       = \<lparr>code = 200,
          content = Json (JObj [(''results'',
                      JArr [JObj [(''result'', JStr ''Booking success. ID: BOOK1.'')]])])\<rparr>"
  by (simp add: run_defs Let_def show_nat.simps)

text \<open>
  The hypotheses of \<open>one_entry_echoing_the_call\<close> hold of the scenario of the
  specification, run on variant C: the entry echoes \<^verbatim>\<open>abc\<close>.
\<close>

theorem one_entry_echoing_the_call_witness:
  "req_method (post body_abc) = ''POST'' \<and> jsonish (req_body (post body_abc))
   \<and> code (fst (handler_of Variant_C env_set (host (provider_with no_match customer_CUST1 booking_BOOK1))
                 (post body_abc) state0)) = 200
   \<and> (\<exists>entry result.
         single_result (fst (handler_of Variant_C env_set
             (host (provider_with no_match customer_CUST1 booking_BOOK1)) (post body_abc) state0))
           = Some entry
         \<and> read_prop entry ''result'' = JStr result
         \<and> read_prop entry ''toolCallId'' = JStr ''abc'')"
proof -
  have m: "req_method (post body_abc) = ''POST''"
    by (simp add: post_def)
  have j: "jsonish (req_body (post body_abc))"
    by (simp add: post_def body_abc_def tool_args_def jsonish_def)
  have r: "\<not> rejects (config_of Variant_C env_set) (call_of (post body_abc))"
    by (simp add: run_defs Let_def)
  have t: "toolCallId (call_of (post body_abc)) = JStr ''abc''"
    by (simp add: run_defs Let_def)
  show ?thesis
    using one_entry_echoing_the_call [OF m j, where v = Variant_C and env = env_set
        and rt = "host (provider_with no_match customer_CUST1 booking_BOOK1)" and s = state0] m j r t
    by simp
qed

subsection \<open>C2: line breaks in the message of a caught failure\<close>

text \<open>
  Claim C2 does not hold of variant B. The claim has every error of customer resolution
  and booking creation answered in the envelope with status 200, the line breaks of its
  message collapsed to single spaces. Variants A (\<^verbatim>\<open>index.js\<close> lines 70 to 82, whose comment
  says why the replacement is needed) and C (\<^verbatim>\<open>part_000\<close> lines 60 to 71) do so; the
  \<^verbatim>\<open>catch\<close> block of variant B (\<^verbatim>\<open>index.js\<close> lines 232 to 242) puts \<^verbatim>\<open>error.message\<close> into the
  result as it is. On the request of the specification's scenario, with the customer found
  and the booking refused with status 400 and a detail of two lines, variant B answers with
  the line feed in the result, and variants A and C with the two lines joined by a space.
\<close>

theorem line_breaks_reach_the_caller_in_B:
  "fst (handler_of Variant_B env_set (host (provider_with found_CUST1 customer_CUST1 booking_refused))
          (post body_abc) state0)
     = \<lparr>code = 200,
        content = Json (JObj [(''results'',
          JArr [JObj [(''toolCallId'', JStr ''abc''),
                      (''result'', JStr (''I encountered a system error and could not finalize the booking. Failure Detail: Start time is in the past.''
                          @ [CHR 0x0A] @ ''Pick another time.''))]])])\<rparr>
   \<and> fst (handler_of Variant_A env_set (host (provider_with found_CUST1 customer_CUST1 booking_refused))
          (post body_abc) state0)
     = \<lparr>code = 200,
        content = Json (JObj [(''results'',
          JArr [JObj [(''toolCallId'', JStr ''abc''),
                      (''result'', JStr ''Booking failed. Failure Detail: Start time is in the past. Pick another time.'')]])])\<rparr>
   \<and> fst (handler_of Variant_C env_set (host (provider_with found_CUST1 customer_CUST1 booking_refused))
          (post body_abc) state0)
     = \<lparr>code = 200,
        content = Json (JObj [(''results'',
          JArr [JObj [(''toolCallId'', JStr ''abc''),
                      (''result'', JStr ''Booking failed. Failure Detail: Start time is in the past. Pick another time.'')]])])\<rparr>"
  by (simp add: run_defs scenario3_defs Let_def show_nat.simps is_line_break_def)

subsection \<open>C3: the validation rejects locally\<close>

text \<open>
  Claim C3, as amended. Every POST request whose \<^verbatim>\<open>functionName\<close> is not
  \<^verbatim>\<open>schedule_square_appointment\<close>, or whose \<^verbatim>\<open>customer_name\<close> or \<^verbatim>\<open>service_name\<close> is
  falsy (absent or empty, among others), or that arrives while the token is not set, is
  answered with status 200 and one result entry holding the fixed configuration error; the
  state is left as it was: no request is sent to the provider and no key is generated.
\<close>

theorem validation_rejects_locally:
  assumes "req_method req = ''POST''"
    and "functionName (call_of req) \<noteq> JStr ''schedule_square_appointment''
         \<or> \<not> truthy (customer_name (call_of req))
         \<or> \<not> truthy (service_name (call_of req))
         \<or> \<not> truthy (TOKEN (config_of v env))"
  shows "code (fst (handler_of v env rt req s)) = 200
    \<and> (\<exists>entry. single_result (fst (handler_of v env rt req s)) = Some entry
          \<and> read_prop entry ''result'' = JStr configuration_error)
    \<and> snd (handler_of v env rt req s) = s
    \<and> urls_called s (snd (handler_of v env rt req s)) = []"
proof -
  have "rejects (config_of v env) (call_of req)"
    using assms(2) by (auto simp: rejects_def)
  then have "handler_of v env rt req s =
      (res_status_json 200
         (results (or_else (toolCallId (call_of req)) (JStr ''test-error'')) configuration_error), s)"
    using rejected_reply [OF assms(1)] by blast
  then show ?thesis
    by (simp add: single_result_results or_else_sentinel_defined code_res_status_json urls_called_def)
qed

text \<open>
  Claim C3 as stated, for every request, fails on variant C, which looks at the method
  before the validation: a GET request with another \<^verbatim>\<open>functionName\<close> is answered with
  status 405 and a text.
\<close>

theorem other_methods_are_refused:
  "functionName (call_of (get_request body_wrong_function)) \<noteq> JStr ''schedule_square_appointment''
   \<and> handler_of Variant_C env_set (host (provider_with no_match customer_CUST1 booking_BOOK1))
        (get_request body_wrong_function) state0
       = (\<lparr>code = 405, content = Text ''Method Not Allowed''\<rparr>, state0)"
  by (simp add: run_defs get_request_def Let_def)

text \<open>
  The hypotheses of \<open>validation_rejects_locally\<close> hold of the scenario request with
  another \<^verbatim>\<open>functionName\<close>, run on variant B.
\<close>

theorem validation_rejects_locally_witness:
  "req_method (post body_wrong_function) = ''POST''
   \<and> functionName (call_of (post body_wrong_function)) \<noteq> JStr ''schedule_square_appointment''
   \<and> code (fst (handler_of Variant_B env_set (host (provider_with no_match customer_CUST1 booking_BOOK1))
                 (post body_wrong_function) state0)) = 200
   \<and> (\<exists>entry. single_result (fst (handler_of Variant_B env_set
                 (host (provider_with no_match customer_CUST1 booking_BOOK1))
                 (post body_wrong_function) state0)) = Some entry
         \<and> read_prop entry ''result'' = JStr configuration_error)
   \<and> snd (handler_of Variant_B env_set (host (provider_with no_match customer_CUST1 booking_BOOK1))
                 (post body_wrong_function) state0) = state0"
proof -
  have m: "req_method (post body_wrong_function) = ''POST''"
    by (simp add: post_def)
  have f: "functionName (call_of (post body_wrong_function)) \<noteq> JStr ''schedule_square_appointment''"
    by (simp add: run_defs Let_def)
  then have "functionName (call_of (post body_wrong_function)) \<noteq> JStr ''schedule_square_appointment''
         \<or> \<not> truthy (customer_name (call_of (post body_wrong_function)))
         \<or> \<not> truthy (service_name (call_of (post body_wrong_function)))
         \<or> \<not> truthy (TOKEN (config_of Variant_B env_set))"
    by blast
  from validation_rejects_locally [OF m this] m f show ?thesis
    by blast
qed

subsection \<open>C4: find or create the customer\<close>




subsection \<open>C5: the failure shapes of the booking call\<close>




subsection \<open>C6: a new customer is booked\<close>



subsection \<open>C7: a status outside 200 to 299 on the customer calls\<close>

text \<open>
  Claim C7 fails on variant B, whose \<^verbatim>\<open>searchCustomer\<close> and \<^verbatim>\<open>createCustomer\<close> do not look
  at \<^verbatim>\<open>response.ok\<close>. When the provider answers the customer search with status 429 and
  an error detail, variant B takes the answer for an empty search, creates a customer and
  books; on the same input variant A sends the search only and tells the caller the
  provider's detail.
\<close>

theorem failed_search_is_no_match_in_B:
  "fst (handler_of Variant_B env_set (host (provider_with too_many_requests customer_CUST1 booking_BOOK1))
          (post body_abc) state0)
     = \<lparr>code = 200,
        content = Json (JObj [(''results'',
          JArr [JObj [(''toolCallId'', JStr ''abc''),
                      (''result'', JStr (''Great! I'' @ [CHR 0x27] @ ''ve confirmed your appointment. Your booking ID is BOOK1. The service is Haircut at 2025-01-01T10:00:00Z.''))]])])\<rparr>
   \<and> urls_called state0
         (snd (handler_of Variant_B env_set
                 (host (provider_with too_many_requests customer_CUST1 booking_BOOK1))
                 (post body_abc) state0))
       = [searchUrl, createUrl, bookingUrl]
   \<and> fst (handler_of Variant_A env_set (host (provider_with too_many_requests customer_CUST1 booking_BOOK1))
          (post body_abc) state0)
     = \<lparr>code = 200,
        content = Json (JObj [(''results'',
          JArr [JObj [(''toolCallId'', JStr ''abc''),
                      (''result'', JStr ''Booking failed. Failure Detail: Too many requests.'')]])])\<rparr>
   \<and> urls_called state0
         (snd (handler_of Variant_A env_set
                 (host (provider_with too_many_requests customer_CUST1 booking_BOOK1))
                 (post body_abc) state0))
       = [searchUrl]"
  by (simp add: run_defs scenario3_defs urls_called_def Let_def show_nat.simps is_line_break_def)

subsection \<open>C8: given name and family name\<close>

text \<open>
  Claim C8, as amended. \<^verbatim>\<open>fullName.split(' ')\<close> returns for a string, and then the name is
  cut at every single space character, empty pieces kept: the given name is the text before
  the first space, the family name is the text after the first space as it is, and
  \<^verbatim>\<open>Client\<close> when the name has no space. For a name made of words without whitespace that
  are separated by exactly one space, this is the split of the specification: first word,
  then the other words joined by single spaces, or \<^verbatim>\<open>Client\<close> when there is one word.
\<close>

theorem names_cut_at_spaces:
  assumes "split_fullName fullName = Inr parts"
  shows "\<exists>s. fullName = JStr s
    \<and> parts = js_split CHR '' '' s
    \<and> given_name parts = JStr (takeWhile (\<lambda>ch. ch \<noteq> CHR '' '') s)
    \<and> family_name parts =
         JStr (if CHR '' '' \<in> set s then tl (dropWhile (\<lambda>ch. ch \<noteq> CHR '' '') s) else ''Client'')
    \<and> (\<forall>ts. ts \<noteq> [] \<and> (\<forall>t\<in>set ts. t \<noteq> [] \<and> (\<forall>ch\<in>set t. \<not> is_whitespace ch))
           \<and> s = js_join CHR '' '' ts
         \<longrightarrow> (\<exists>g f. spec_names s = Some (g, f)
               \<and> given_name parts = JStr g \<and> family_name parts = JStr f))"
proof -
  obtain s where s: "fullName = JStr s" "parts = js_split CHR '' '' s"
    using assms by (cases fullName) (auto simp: split_fullName_def)
  have g: "given_name parts = JStr (takeWhile (\<lambda>ch. ch \<noteq> CHR '' '') s)"
    using s(2) by (simp add: given_name_split)
  have f: "family_name parts =
         JStr (if CHR '' '' \<in> set s then tl (dropWhile (\<lambda>ch. ch \<noteq> CHR '' '') s) else ''Client'')"
    using s(2) by (simp only: family_name_split)
  have a: "\<forall>ts. ts \<noteq> [] \<and> (\<forall>t\<in>set ts. t \<noteq> [] \<and> (\<forall>ch\<in>set t. \<not> is_whitespace ch))
           \<and> s = js_join CHR '' '' ts
         \<longrightarrow> (\<exists>g f. spec_names s = Some (g, f)
               \<and> given_name parts = JStr g \<and> family_name parts = JStr f)"
  proof (intro allI impI)
    fix ts
    assume h: "ts \<noteq> [] \<and> (\<forall>t\<in>set ts. t \<noteq> [] \<and> (\<forall>ch\<in>set t. \<not> is_whitespace ch))
           \<and> s = js_join CHR '' '' ts"
    then obtain t rest where ts: "ts = t # rest"
      by (cases ts) auto
    have "\<forall>t\<in>set ts. CHR '' '' \<notin> set t"
      using h space_is_whitespace by auto
    then have p: "parts = ts"
      using h s(2) by (simp add: js_split_join)
    have w: "ws_tokens s = ts"
      using h by (simp add: ws_tokens_join)
    have "spec_names s = Some (t, if rest = [] then ''Client'' else js_join CHR '' '' rest)"
      using w ts by (simp add: spec_names_def)
    moreover have "given_name parts = JStr t"
      using p ts by (simp add: given_name_def)
    moreover have "family_name parts = JStr (if rest = [] then ''Client'' else js_join CHR '' '' rest)"
      using p ts by (cases rest) (simp_all add: family_name_def)
    ultimately show "\<exists>g f. spec_names s = Some (g, f)
               \<and> given_name parts = JStr g \<and> family_name parts = JStr f"
      by blast
  qed
  show ?thesis
    using s g f a by blast
qed

text \<open>
  Claim C8 as stated, with whitespace-separated tokens, fails on a name with two spaces
  between its words: the code's family name starts with a space, the specification's does
  not.
\<close>

theorem two_spaces_in_a_name:
  "split_fullName (JStr ''Jane  Doe'') = Inr [''Jane'', [], ''Doe'']
   \<and> given_name [''Jane'', [], ''Doe''] = JStr ''Jane''
   \<and> family_name [''Jane'', [], ''Doe''] = JStr '' Doe''
   \<and> ws_tokens ''Jane  Doe'' = [''Jane'', ''Doe'']
   \<and> spec_names ''Jane  Doe'' = Some (''Jane'', ''Doe'')"
  by (simp add: split_fullName_def given_name_def family_name_def spec_names_def
      ws_tokens.simps is_whitespace_def)

text \<open>
  The hypothesis of \<open>names_cut_at_spaces\<close> holds of \<^verbatim>\<open>Jane Doe\<close> and of \<^verbatim>\<open>Cher\<close>.
\<close>

theorem names_cut_at_spaces_witness:
  "split_fullName (JStr ''Jane Doe'') = Inr [''Jane'', ''Doe'']
   \<and> given_name [''Jane'', ''Doe''] = JStr ''Jane''
   \<and> family_name [''Jane'', ''Doe''] = JStr ''Doe''
   \<and> split_fullName (JStr ''Cher'') = Inr [''Cher'']
   \<and> family_name [''Cher''] = JStr ''Client''"
proof -
  have a: "split_fullName (JStr ''Jane Doe'') = Inr [''Jane'', ''Doe'']"
    by (simp add: split_fullName_def)
  have b: "split_fullName (JStr ''Cher'') = Inr [''Cher'']"
    by (simp add: split_fullName_def)
  from names_cut_at_spaces [OF a] have "given_name [''Jane'', ''Doe''] = JStr ''Jane''"
    "family_name [''Jane'', ''Doe''] = JStr ''Doe''"
    by auto
  moreover from names_cut_at_spaces [OF b] have "family_name [''Cher''] = JStr ''Client''"
    by auto
  ultimately show ?thesis using a b by simp
qed

subsection \<open>C9: idempotency keys\<close>

text \<open>
  Claim C9, as amended. Two keys generated one after the other are equal exactly when
  they are of the same kind (both for a customer, or both for a booking), \<^verbatim>\<open>Date.now()\<close>
  gave the same millisecond both times, and the two values of
  \<^verbatim>\<open>Math.random().toString(36)\<close> agree on \<^verbatim>\<open>substring(2, 8)\<close>. So a customer key is never
  equal to a booking key, and two keys of different milliseconds are never equal.
\<close>

theorem sequential_keys:
  assumes "new_key rt k1 s = (Inr key1, s1)" and "new_key rt k2 s1 = (Inr key2, s2)"
  shows "(key1 = key2)
     = (k1 = k2 \<and> date_now rt (reads s) = date_now rt (reads s + 1)
        \<and> substring_2_8 (random36 rt (reads s)) = substring_2_8 (random36 rt (reads s + 1)))"
proof -
  have "key1 = idempotency_key k1 (date_now rt (reads s)) (random36 rt (reads s))"
    and "reads s1 = reads s + 1"
    using assms(1) by (auto simp: new_key_def)
  moreover from this have "key2 = idempotency_key k2 (date_now rt (reads s + 1)) (random36 rt (reads s + 1))"
    using assms(2) by (auto simp: new_key_def)
  ultimately show ?thesis
    by (simp only: idempotency_key_eq)
qed

text \<open>
  Claim C9 as stated, that two keys generated in sequence are never equal, fails when two
  booking keys are generated in the same millisecond from random numbers with the same
  first six digits in base 36.
\<close>

theorem two_keys_in_one_millisecond:
  "fst (new_key (host_same_instant (provider_with found_CUST1 customer_CUST1 booking_BOOK1))
          BookingKey state0)
     = Inr ''vapi-booking-1735725600000-4fzyo8''
   \<and> fst (new_key (host_same_instant (provider_with found_CUST1 customer_CUST1 booking_BOOK1))
          BookingKey
          (snd (new_key (host_same_instant (provider_with found_CUST1 customer_CUST1 booking_BOOK1))
                  BookingKey state0)))
     = Inr ''vapi-booking-1735725600000-4fzyo8''"
  by (simp add: new_key_def idempotency_key_def substring_2_8_def host_same_instant_def state0_def
      show_nat.simps digit_char_def)

text \<open>
  The hypotheses of \<open>sequential_keys\<close> hold of the two keys of one request: the customer
  key and the booking key differ.
\<close>

theorem sequential_keys_witness:
  "new_key (host (provider_with found_CUST1 customer_CUST1 booking_BOOK1)) CustomerKey state0
     = (Inr ''vapi-customer-1735725600000-4fzyo8'', \<lparr>sent = [], reads = 1\<rparr>)
   \<and> new_key (host (provider_with found_CUST1 customer_CUST1 booking_BOOK1)) BookingKey
        \<lparr>sent = [], reads = 1\<rparr>
     = (Inr ''vapi-booking-1735725600000-4fzyo8'', \<lparr>sent = [], reads = 2\<rparr>)
   \<and> CustomerKey \<noteq> BookingKey
   \<and> ''vapi-customer-1735725600000-4fzyo8'' \<noteq> ''vapi-booking-1735725600000-4fzyo8''"
proof -
  have a: "new_key (host (provider_with found_CUST1 customer_CUST1 booking_BOOK1)) CustomerKey state0
     = (Inr ''vapi-customer-1735725600000-4fzyo8'', \<lparr>sent = [], reads = 1\<rparr>)"
    by (simp add: new_key_def idempotency_key_def substring_2_8_def host_def state0_def
      show_nat.simps digit_char_def)
  have b: "new_key (host (provider_with found_CUST1 customer_CUST1 booking_BOOK1)) BookingKey
        \<lparr>sent = [], reads = 1\<rparr>
     = (Inr ''vapi-booking-1735725600000-4fzyo8'', \<lparr>sent = [], reads = 2\<rparr>)"
    by (simp add: new_key_def idempotency_key_def substring_2_8_def host_def state0_def
      show_nat.simps digit_char_def)
  from sequential_keys [OF a b] a b show ?thesis by simp
qed

subsection \<open>C10: a request without a phone number\<close>

text \<open>
  Claim C10. The validation does not read \<^verbatim>\<open>customer_phone\<close>: a POST request with the
  right \<^verbatim>\<open>functionName\<close>, truthy \<^verbatim>\<open>customer_name\<close> and \<^verbatim>\<open>service_name\<close> and no
  \<^verbatim>\<open>customer_phone\<close> passes it in every variant whose token is set, and changing
  \<^verbatim>\<open>customer_phone\<close> never changes the verdict. Variant C, which normalizes the phone
  number, answers such a request with status 200 and one result entry that names the
  TypeError of \<^verbatim>\<open>phone.replace\<close>; it sends nothing to the provider.
\<close>

theorem absent_phone_is_caught:
  fixes env rt req s
  defines "c \<equiv> call_of req"
  assumes "req_method req = ''POST''"
    and "functionName c = JStr ''schedule_square_appointment''"
    and "truthy (customer_name c)"
    and "truthy (service_name c)"
    and "customer_phone c = JUndef"
  shows "(\<forall>v. truthy (TOKEN (config_of v env)) \<longrightarrow> passes_validation v env req)
    \<and> (\<forall>cfg p. rejects cfg (c\<lparr>customer_phone := p\<rparr>) = rejects cfg c)
    \<and> passes_validation Variant_C env req
    \<and> code (fst (handler_C env rt req s)) = 200
    \<and> (\<exists>entry. single_result (fst (handler_C env rt req s)) = Some entry
          \<and> read_prop entry ''toolCallId'' = wire (toolCallId c)
          \<and> read_prop entry ''result'' =
               JStr (''Booking failed. Failure Detail: '' @ cannot_read JUndef ''replace''))
    \<and> snd (handler_C env rt req s) = s"
proof -
  have p1: "\<forall>v. truthy (TOKEN (config_of v env)) \<longrightarrow> passes_validation v env req"
    using assms(2-5) by (simp add: passes_validation_def rejects_def c_def)
  have p2: "\<forall>cfg p. rejects cfg (c\<lparr>customer_phone := p\<rparr>) = rejects cfg c"
    by (simp add: rejects_ignores_phone)
  have p3: "passes_validation Variant_C env req"
    using p1 by (simp add: config_C_def token_literal_C_def)
  have "fst (search_of Variant_C rt (customer_phone (call_of req)) (TOKEN (config_of Variant_C env)) s)
      = Inl (TypeError (cannot_read JUndef ''replace''))"
    and "snd (search_of Variant_C rt (customer_phone (call_of req)) (TOKEN (config_of Variant_C env)) s) = s"
    using assms(6) by (simp_all add: c_def searchCustomer_C_no_phone)
  then have "handler_of Variant_C env rt req s =
      (catch_of Variant_C (call_of req) (TypeError (cannot_read JUndef ''replace'')), s)"
    using run_search_fails [OF p3, of rt s] by simp
  then have h: "handler_C env rt req s =
      (res_status_json 200 (results (toolCallId c)
         (''Booking failed. Failure Detail: '' @ cannot_read JUndef ''replace'')), s)"
    by (simp add: catch_AC_def cannot_read_replace_clean c_def) (simp add: cannot_read_def)
  have p4: "code (fst (handler_C env rt req s)) = 200"
    using h by (simp add: code_res_status_json)
  have p5: "\<exists>entry. single_result (fst (handler_C env rt req s)) = Some entry
          \<and> read_prop entry ''toolCallId'' = wire (toolCallId c)
          \<and> read_prop entry ''result'' =
               JStr (''Booking failed. Failure Detail: '' @ cannot_read JUndef ''replace'')"
    unfolding h fst_conv single_result_results by simp
  have p6: "snd (handler_C env rt req s) = s"
    using h by simp
  show ?thesis
    by (rule conjI [OF p1 conjI [OF p2 conjI [OF p3 conjI [OF p4 conjI [OF p5 p6]]]]])
qed

text \<open>
  The hypotheses of \<open>absent_phone_is_caught\<close> hold of the scenario request without its
  \<^verbatim>\<open>customer_phone\<close>.
\<close>

theorem absent_phone_is_caught_witness:
  "req_method (post body_no_phone) = ''POST''
   \<and> functionName (call_of (post body_no_phone)) = JStr ''schedule_square_appointment''
   \<and> truthy (customer_name (call_of (post body_no_phone)))
   \<and> truthy (service_name (call_of (post body_no_phone)))
   \<and> customer_phone (call_of (post body_no_phone)) = JUndef
   \<and> passes_validation Variant_C env_set (post body_no_phone)
   \<and> code (fst (handler_C env_set (host (provider_with found_CUST1 customer_CUST1 booking_BOOK1))
                  (post body_no_phone) state0)) = 200
   \<and> snd (handler_C env_set (host (provider_with found_CUST1 customer_CUST1 booking_BOOK1))
                  (post body_no_phone) state0) = state0"
proof -
  have a: "req_method (post body_no_phone) = ''POST''"
    and b: "functionName (call_of (post body_no_phone)) = JStr ''schedule_square_appointment''"
    and c: "truthy (customer_name (call_of (post body_no_phone)))"
    and d: "truthy (service_name (call_of (post body_no_phone)))"
    and e: "customer_phone (call_of (post body_no_phone)) = JUndef"
    by (simp_all add: post_def body_no_phone_def call_of_def destructure_def or_else_def Let_def)
  from absent_phone_is_caught [OF a b c d e, where env = env_set
      and rt = "host (provider_with found_CUST1 customer_CUST1 booking_BOOK1)" and s = state0]
    a b c d e
  show ?thesis by blast
qed

end
